theory Spec2Isabelle
  imports Main "HOL-Library.Word"
begin

section \<open>Data model\<close>

text \<open>
  The verification harness drives an S3 server through PUT, GET, DELETE and upload-part
  probes. Byte slices are lists of 8-bit words, Go strings are \<open>string\<close>, a Go error
  value is a member of \<open>error\<close> and a nil error is \<open>None\<close>.
\<close>

type_synonym bytes = "8 word list"

text \<open>
  One constructor for each \<open>fmt.Errorf\<close> format string of the sources, and one for each
  kind of failure that comes back from a collaborator (reading a body, decoding XML,
  hashing a payload, the network, the standard header validator, building a URL).
\<close>

datatype error =
    UnexpectedStatusCode int int
  | UnexpectedStatusReceived int int
  | UnexpectedStatusLine string string
  | UnexpectedBodyExpectedEmpty bytes
  | UnexpectedBodyReceived bytes
  | UnexpectedBodyWanted bytes bytes
  | UnexpectedErrorResponse string
  | ReadFailure string
  | DecodeFailure string
  | HashFailure string
  | TransportFailure string
  | StandardHeaderFailure string
  | TargetURLFailure string
  | SetupFailure string
  | CleanUpFailure string

text \<open>\<open>http.Header\<close>: a map from canonical header names to value lists.\<close>

type_synonym header = "string \<rightharpoonup> string list"

text \<open>
  \<open>http.Response\<close>, the fields the verifiers read. \<open>Body\<close> is what
  \<open>ioutil.ReadAll\<close> gives for the body stream: the bytes, or a read error.
\<close>

record Response =
  Status :: string
  StatusCode :: int
  Header :: header
  Body :: "error + bytes"

text \<open>\<open>minio.ErrorResponse\<close>, the fields an S3 error document decodes into.\<close>

record ErrorResponse =
  Code :: string
  Message :: string

text \<open>
  The harness's own \<open>Request\<close> description. Its declaration is outside the sources
  at hand; the fields are the ones the constructors assign. A nil map reads like an
  empty one, so the maps are plain maps; \<open>contentBody = None\<close> is the nil reader.
\<close>

record Request =
  bucketName :: string
  objectName :: string
  queryValues :: "string \<rightharpoonup> string list"
  customHeader :: header
  contentLength :: int
  contentBody :: "bytes option"

text \<open>\<open>ServerConfig\<close>, declared outside the sources at hand: the fields they read.\<close>

record ServerConfig =
  Endpoint :: string
  Region :: string
  Access :: string
  Secret :: string

text \<open>
  The collaborators the sources call but do not define: the shared header validator (in
  its two signatures, on a header and, in the older If-Match file, on a response), the
  digest computer, the two encoders, the user agent string, the XML decoder for error
  documents, the target URL builder, the SHA-256 sum of the signing package and the
  authorization value its signer computes.
\<close>

record collab =
  verifyStandardHeaders :: "header \<Rightarrow> error option"
  verifyStandardHeadersRes :: "Response \<Rightarrow> error option"
  computeHash :: "bytes \<Rightarrow> error + (bytes \<times> bytes \<times> int)"
  base64Encode :: "bytes \<Rightarrow> string"
  hexEncode :: "bytes \<Rightarrow> string"
  appUserAgent :: string
  xmlDecode :: "bytes \<Rightarrow> error + ErrorResponse"
  makeTargetURL :: "string \<Rightarrow> string \<Rightarrow> string \<Rightarrow> string \<Rightarrow> error + string"
  Sum256 :: "bytes \<Rightarrow> bytes"
  authorization :: "string \<Rightarrow> string option \<Rightarrow> header \<Rightarrow> string \<Rightarrow> string \<Rightarrow> string \<Rightarrow> string"

section \<open>Verifiers\<close>

subsection \<open>PUT object (put-object.go)\<close>

definition verifyStatusPutObject :: "int \<Rightarrow> int \<Rightarrow> error option" where
  "verifyStatusPutObject respStatusCode expectedStatusCode =
     (if respStatusCode \<noteq> expectedStatusCode
      then Some (UnexpectedStatusCode expectedStatusCode respStatusCode)
      else None)"

definition verifyBodyPutObject :: "error + bytes \<Rightarrow> error option" where
  "verifyBodyPutObject resBody =
     (case resBody of
        Inl err \<Rightarrow> Some err
      | Inr body \<Rightarrow> if body \<noteq> [] then Some (UnexpectedBodyExpectedEmpty body) else None)"

definition verifyHeaderPutObject :: "collab \<Rightarrow> header \<Rightarrow> error option" where
  "verifyHeaderPutObject cl hdr =
     (case verifyStandardHeaders cl hdr of Some err \<Rightarrow> Some err | None \<Rightarrow> None)"

definition putObjectVerify :: "collab \<Rightarrow> Response \<Rightarrow> int \<Rightarrow> error option" where
  "putObjectVerify cl res expectedStatusCode =
     (case verifyHeaderPutObject cl (Header res) of
        Some err \<Rightarrow> Some err
      | None \<Rightarrow>
         (case verifyStatusPutObject (StatusCode res) expectedStatusCode of
            Some err \<Rightarrow> Some err
          | None \<Rightarrow>
             (case verifyBodyPutObject (Body res) of
                Some err \<Rightarrow> Some err
              | None \<Rightarrow> None)))"

subsection \<open>Upload part\<close>

definition verifyBodyUploadPart :: "error + bytes \<Rightarrow> error option" where
  "verifyBodyUploadPart resBody =
     (case resBody of
        Inl err \<Rightarrow> Some err
      | Inr body \<Rightarrow> if body \<noteq> [] then Some (UnexpectedBodyReceived body) else None)"

definition verifyStatusUploadPart :: "int \<Rightarrow> int \<Rightarrow> error option" where
  "verifyStatusUploadPart respStatusCode expectedStatusCode =
     (if respStatusCode \<noteq> expectedStatusCode
      then Some (UnexpectedStatusReceived expectedStatusCode respStatusCode)
      else None)"

definition verifyHeaderUploadPart :: "collab \<Rightarrow> header \<Rightarrow> error option" where
  "verifyHeaderUploadPart cl hdr =
     (case verifyStandardHeaders cl hdr of Some err \<Rightarrow> Some err | None \<Rightarrow> None)"

definition uploadPartVerify :: "collab \<Rightarrow> Response \<Rightarrow> int \<Rightarrow> error option" where
  "uploadPartVerify cl res expectedStatusCode =
     (case verifyBodyUploadPart (Body res) of
        Some err \<Rightarrow> Some err
      | None \<Rightarrow>
         (case verifyStatusUploadPart (StatusCode res) expectedStatusCode of
            Some err \<Rightarrow> Some err
          | None \<Rightarrow>
             (case verifyHeaderUploadPart cl (Header res) of
                Some err \<Rightarrow> Some err
              | None \<Rightarrow> None)))"

subsection \<open>GET object with If-Match (get-object-if-match.go)\<close>

definition VerifyHeaderGetObjectIfMatch :: "collab \<Rightarrow> Response \<Rightarrow> error option" where
  "VerifyHeaderGetObjectIfMatch cl res =
     (case verifyStandardHeadersRes cl res of Some err \<Rightarrow> Some err | None \<Rightarrow> None)"

text \<open>
  With \<open>shouldFail\<close> the body is decoded as an error document: a read error of the stream
  and a malformed document both come back from \<open>decoder.Decode\<close>.
\<close>

definition VerifyBodyGetObjectIfMatch ::
  "collab \<Rightarrow> Response \<Rightarrow> bytes \<Rightarrow> bool \<Rightarrow> error option" where
  "VerifyBodyGetObjectIfMatch cl res objectBody shouldFail =
     (if shouldFail then
        (case Body res of
           Inl err \<Rightarrow> Some err
         | Inr raw \<Rightarrow>
            (case xmlDecode cl raw of
               Inl err \<Rightarrow> Some err
             | Inr errBody \<Rightarrow>
                if Code errBody \<noteq> ''PreconditionFailed''
                then Some (UnexpectedErrorResponse (Code errBody))
                else None))
      else
        (case Body res of
           Inl err \<Rightarrow> Some err
         | Inr body \<Rightarrow>
            if \<not> shouldFail \<and> body \<noteq> objectBody
            then Some (UnexpectedBodyWanted objectBody body)
            else None))"

definition VerifyStatusGetObjectIfMatch :: "Response \<Rightarrow> string \<Rightarrow> error option" where
  "VerifyStatusGetObjectIfMatch res expectedStatus =
     (if Status res \<noteq> expectedStatus
      then Some (UnexpectedStatusLine expectedStatus (Status res))
      else None)"

definition GetObjectIfMatchVerify ::
  "collab \<Rightarrow> Response \<Rightarrow> bytes \<Rightarrow> string \<Rightarrow> bool \<Rightarrow> error option" where
  "GetObjectIfMatchVerify cl res objectBody expectedStatus shouldFail =
     (case VerifyHeaderGetObjectIfMatch cl res of
        Some err \<Rightarrow> Some err
      | None \<Rightarrow>
         (case VerifyBodyGetObjectIfMatch cl res objectBody shouldFail of
            Some err \<Rightarrow> Some err
          | None \<Rightarrow>
             (case VerifyStatusGetObjectIfMatch res expectedStatus of
                Some err \<Rightarrow> Some err
              | None \<Rightarrow> None)))"

subsection \<open>DELETE object\<close>

definition verifyHeaderRemoveObject :: "collab \<Rightarrow> header \<Rightarrow> error option" where
  "verifyHeaderRemoveObject cl hdr =
     (case verifyStandardHeaders cl hdr of Some err \<Rightarrow> Some err | None \<Rightarrow> None)"

definition verifyBodyRemoveObject :: "error + bytes \<Rightarrow> error option" where
  "verifyBodyRemoveObject resBody =
     (case resBody of
        Inl err \<Rightarrow> Some err
      | Inr body \<Rightarrow> if body \<noteq> [] then Some (UnexpectedBodyReceived body) else None)"

definition verifyStatusRemoveObject :: "int \<Rightarrow> int \<Rightarrow> error option" where
  "verifyStatusRemoveObject respStatusCode expectedStatusCode =
     (if respStatusCode \<noteq> expectedStatusCode
      then Some (UnexpectedStatusReceived expectedStatusCode respStatusCode)
      else None)"

definition removeObjectVerify :: "collab \<Rightarrow> Response \<Rightarrow> int \<Rightarrow> error option" where
  "removeObjectVerify cl res expectedStatusCode =
     (case verifyHeaderRemoveObject cl (Header res) of
        Some err \<Rightarrow> Some err
      | None \<Rightarrow>
         (case verifyBodyRemoveObject (Body res) of
            Some err \<Rightarrow> Some err
          | None \<Rightarrow>
             (case verifyStatusRemoveObject (StatusCode res) expectedStatusCode of
                Some err \<Rightarrow> Some err
              | None \<Rightarrow> None)))"

subsection \<open>GET object with If-None-Match\<close>

definition verifyHeaderGetObjectIfNoneMatch :: "collab \<Rightarrow> header \<Rightarrow> error option" where
  "verifyHeaderGetObjectIfNoneMatch cl hdr =
     (case verifyStandardHeaders cl hdr of Some err \<Rightarrow> Some err | None \<Rightarrow> None)"

definition verifyStatusGetObjectIfNoneMatch :: "int \<Rightarrow> int \<Rightarrow> error option" where
  "verifyStatusGetObjectIfNoneMatch respStatusCode expectedStatusCode =
     (if respStatusCode \<noteq> expectedStatusCode
      then Some (UnexpectedStatusCode expectedStatusCode respStatusCode)
      else None)"

definition verifyBodyGetObjectIfNoneMatch :: "error + bytes \<Rightarrow> bytes \<Rightarrow> error option" where
  "verifyBodyGetObjectIfNoneMatch resBody expectedBody =
     (case resBody of
        Inl err \<Rightarrow> Some err
      | Inr body \<Rightarrow>
         if body \<noteq> expectedBody then Some (UnexpectedBodyWanted expectedBody body) else None)"

definition getObjectIfNoneMatchVerify ::
  "collab \<Rightarrow> Response \<Rightarrow> bytes \<Rightarrow> int \<Rightarrow> error option" where
  "getObjectIfNoneMatchVerify cl res objectBody expectedStatusCode =
     (case verifyHeaderGetObjectIfNoneMatch cl (Header res) of
        Some err \<Rightarrow> Some err
      | None \<Rightarrow>
         (case verifyStatusGetObjectIfNoneMatch (StatusCode res) expectedStatusCode of
            Some err \<Rightarrow> Some err
          | None \<Rightarrow>
             (case verifyBodyGetObjectIfNoneMatch (Body res) objectBody of
                Some err \<Rightarrow> Some err
              | None \<Rightarrow> None)))"

subsection \<open>GET object with If-Modified-Since (get-object-if-modified-since.go)\<close>

definition verifyBodyGetObjectIfModifiedSince :: "error + bytes \<Rightarrow> bytes \<Rightarrow> error option" where
  "verifyBodyGetObjectIfModifiedSince resBody expectedBody =
     (case resBody of
        Inl err \<Rightarrow> Some err
      | Inr body \<Rightarrow>
         if body \<noteq> expectedBody then Some (UnexpectedBodyWanted expectedBody body) else None)"

definition verifyStatusGetObjectIfModifiedSince :: "int \<Rightarrow> int \<Rightarrow> error option" where
  "verifyStatusGetObjectIfModifiedSince respStatusCode expectedStatusCode =
     (if respStatusCode \<noteq> expectedStatusCode
      then Some (UnexpectedStatusCode expectedStatusCode respStatusCode)
      else None)"

definition verifyHeaderGetObjectIfModifiedSince :: "collab \<Rightarrow> header \<Rightarrow> error option" where
  "verifyHeaderGetObjectIfModifiedSince cl hdr =
     (case verifyStandardHeaders cl hdr of Some err \<Rightarrow> Some err | None \<Rightarrow> None)"

definition verifyGetObjectIfModifiedSince ::
  "collab \<Rightarrow> Response \<Rightarrow> bytes \<Rightarrow> int \<Rightarrow> error option" where
  "verifyGetObjectIfModifiedSince cl res expectedBody expectedStatusCode =
     (case verifyHeaderGetObjectIfModifiedSince cl (Header res) of
        Some err \<Rightarrow> Some err
      | None \<Rightarrow>
         (case verifyBodyGetObjectIfModifiedSince (Body res) expectedBody of
            Some err \<Rightarrow> Some err
          | None \<Rightarrow>
             (case verifyStatusGetObjectIfModifiedSince (StatusCode res) expectedStatusCode of
                Some err \<Rightarrow> Some err
              | None \<Rightarrow> None)))"

subsection \<open>The order of checks\<close>

text \<open>
  \<open>firstFailure\<close> runs a list of check results from the left and gives the first error.
  \<open>verifyInSpecOrder\<close> is the composition the specification describes: the status
  check, then the header check, then the body check. It is the reference the verifiers
  of the sources are compared with.
\<close>

fun firstFailure :: "error option list \<Rightarrow> error option" where
  "firstFailure [] = None"
| "firstFailure (None # cs) = firstFailure cs"
| "firstFailure (Some err # cs) = Some err"

definition verifyInSpecOrder ::
  "error option \<Rightarrow> error option \<Rightarrow> error option \<Rightarrow> error option" where
  "verifyInSpecOrder statusCheck headerCheck bodyCheck =
     firstFailure [statusCheck, headerCheck, bodyCheck]"

section \<open>Channels and the fixture registry\<close>

text \<open>
  A Go channel as its receiver sees it: the messages that arrive, in arrival order, and
  whether the channel has been closed. A receive takes the oldest message; on a closed
  and drained channel it returns at once with \<open>ok = false\<close>; on an open channel on
  which no further message arrives it never returns. The channels of the sources are
  made with a buffer of \<open>globalTotalNumTest\<close> places, a variable declared outside the
  sources at hand; the buffer bounds how many sends can complete before a receive, not
  the order of arrival, and is not part of the model. No source closes a channel.
\<close>

record 'm chan =
  pending :: "'m list"
  closed :: bool

datatype 'm recv = Received 'm "'m chan" | ClosedAndEmpty | NeverReturns

definition receive :: "'m chan \<Rightarrow> 'm recv" where
  "receive ch =
     (case pending ch of
        m # ms \<Rightarrow> Received m (ch\<lparr>pending := ms\<rparr>)
      | [] \<Rightarrow> if closed ch then ClosedAndEmpty else NeverReturns)"

text \<open>
  How an aggregation loop ends: it runs \<open>count\<close> down to zero and falls through
  (\<open>Drained\<close>), it returns false (\<open>ReturnedFalse\<close>, with the error handed to
  \<open>printMessage\<close> if there was one), it waits for ever on a receive (\<open>Blocked\<close>), or
  the runtime panics. Each ending carries the state it leaves behind.
\<close>

datatype 's ending = Drained 's | ReturnedFalse "error option" 's | Blocked 's | Panicked

text \<open>
  The loop \<open>for count > 0 { count--; err, ok := <-errCh; ... }\<close> that closes
  mainPutObject, mainGetObjectRange, mainGetObjectIfModifiedSince,
  mainGetObjectIfNoneMatch and each phase of mainRemoveObjectExists, word for word the
  same in all of them.
\<close>

fun errChLoop :: "nat \<Rightarrow> error option chan \<Rightarrow> error option chan ending" where
  "errChLoop 0 errCh = Drained errCh"
| "errChLoop (Suc count) errCh =
     (case receive errCh of
        NeverReturns \<Rightarrow> Blocked errCh
      | ClosedAndEmpty \<Rightarrow> ReturnedFalse None errCh
      | Received err errCh' \<Rightarrow>
         (case err of
            Some e \<Rightarrow> ReturnedFalse (Some e) errCh'
          | None \<Rightarrow> errChLoop count errCh'))"

text \<open>
  The entities of the registry. \<open>ObjectInfo\<close>, \<open>objectPart\<close>, \<open>completePart\<close> and
  \<open>completeMultipartUpload\<close> are declared outside the sources at hand; the fields are
  the ones the sources read and write. Field names that two structs share carry the
  struct's initials here.
\<close>

record ObjectInfo =
  Key :: string
  oBody :: bytes
  oETag :: string
  oSize :: int
  UploadID :: string

record objectPart =
  PartNumber :: int
  ETag :: string
  Size :: int

record completePart =
  cpETag :: string
  cpPartNumber :: int

record completeMultipartUpload =
  Parts :: "completePart list"

text \<open>
  What an upload-part task sends: the index of its object, the part, the error (the field
  \<open>err\<close> of the source, \<open>perr\<close> here, as \<open>err\<close> names the local variables).
\<close>

record partChannel =
  index :: int
  objPart :: objectPart
  perr :: "error option"

text \<open>
  The process-wide fixture lists. \<open>objects\<close> is a slice of pointers, nil until a PUT
  task fills the slot. \<open>complMultipartUploads\<close> is a slice of pointers to two structs
  of their own, so a list of values.
\<close>

record registry =
  objects :: "ObjectInfo option list"
  objectParts :: "objectPart list"
  complMultipartUploads :: "completeMultipartUpload list"

definition initialRegistry :: registry where
  "initialRegistry = \<lparr>objects = replicate 50 None, objectParts = [],
     complMultipartUploads = [\<lparr>Parts = []\<rparr>, \<lparr>Parts = []\<rparr>]\<rparr>"

text \<open>
  The aggregation loop of mainUploadPart. Indexing \<open>complMultipartUploads\<close> outside
  its bounds is a runtime panic.
\<close>

fun uploadPartLoop ::
  "nat \<Rightarrow> partChannel chan \<Rightarrow> registry \<Rightarrow> (registry \<times> partChannel chan) ending" where
  "uploadPartLoop 0 partCh reg = Drained (reg, partCh)"
| "uploadPartLoop (Suc count) partCh reg =
     (case receive partCh of
        NeverReturns \<Rightarrow> Blocked (reg, partCh)
      | ClosedAndEmpty \<Rightarrow> ReturnedFalse None (reg, partCh)
      | Received partChRes partCh' \<Rightarrow>
         (case perr partChRes of
            Some e \<Rightarrow> ReturnedFalse (Some e) (reg, partCh')
          | None \<Rightarrow>
             (let part = objPart partChRes;
                  reg1 = reg\<lparr>objectParts := objectParts reg @ [part]\<rparr>;
                  complPart = \<lparr>cpETag = ETag part, cpPartNumber = PartNumber part\<rparr>;
                  uploads = complMultipartUploads reg1;
                  i = index partChRes
              in if 0 \<le> i \<and> i < int (length uploads)
                 then uploadPartLoop count partCh'
                        (reg1\<lparr>complMultipartUploads :=
                           uploads[nat i := (uploads ! nat i)
                             \<lparr>Parts := Parts (uploads ! nat i) @ [complPart]\<rparr>]\<rparr>)
                 else Panicked)))"

section \<open>Library operations the constructors use\<close>

text \<open>
  \<open>http.Header.Set\<close> and \<open>Get\<close> work on the canonical form of the key
  (\<open>textproto.CanonicalMIMEHeaderKey\<close>): when every byte of the key is a token byte,
  the first letter and each letter after a hyphen are upper case and the others lower
  case; a key with any other byte is left as it is.
\<close>

definition validHeaderFieldByte :: "char \<Rightarrow> bool" where
  "validHeaderFieldByte c =
     (let n = (of_char c :: nat)
      in (48 \<le> n \<and> n \<le> 57) \<or> (65 \<le> n \<and> n \<le> 90) \<or> (97 \<le> n \<and> n \<le> 122) \<or>
         n \<in> set [33, 35, 36, 37, 38, 39, 42, 43, 45, 46, 94, 95, 96, 124, 126])"

fun canonicalPass :: "bool \<Rightarrow> string \<Rightarrow> string" where
  "canonicalPass upper [] = []"
| "canonicalPass upper (c # cs) =
     (let n = (of_char c :: nat);
          c' = (if upper \<and> 97 \<le> n \<and> n \<le> 122 then char_of (n - 32)
                else if \<not> upper \<and> 65 \<le> n \<and> n \<le> 90 then char_of (n + 32)
                else c)
      in c' # canonicalPass (c' = CHR ''-'') cs)"

definition CanonicalMIMEHeaderKey :: "string \<Rightarrow> string" where
  "CanonicalMIMEHeaderKey s =
     (if list_all validHeaderFieldByte s then canonicalPass True s else s)"

definition headerSet :: "header \<Rightarrow> string \<Rightarrow> string \<Rightarrow> header" where
  "headerSet h key v = h(CanonicalMIMEHeaderKey key \<mapsto> [v])"

definition headerGet :: "header \<Rightarrow> string \<Rightarrow> string" where
  "headerGet h key =
     (case h (CanonicalMIMEHeaderKey key) of
        None \<Rightarrow> []
      | Some [] \<Rightarrow> []
      | Some (v # vs) \<Rightarrow> v)"

text \<open>\<open>url.Values.Set\<close> stores under the key as written.\<close>

definition valuesSet ::
  "(string \<rightharpoonup> string list) \<Rightarrow> string \<Rightarrow> string \<Rightarrow> (string \<rightharpoonup> string list)" where
  "valuesSet vs key v = vs(key \<mapsto> [v])"

text \<open>\<open>strconv.Itoa\<close> and \<open>strconv.FormatInt(_, 10)\<close>: decimal digits, a minus sign first.\<close>

fun natDigits :: "nat \<Rightarrow> string" where
  "natDigits n =
     (if n < 10 then [char_of (48 + n)]
      else natDigits (n div 10) @ [char_of (48 + n mod 10)])"

declare natDigits.simps [simp del]

definition FormatInt :: "int \<Rightarrow> string" where
  "FormatInt i = (if i < 0 then CHR ''-'' # natDigits (nat (- i)) else natDigits (nat i))"

definition Itoa :: "int \<Rightarrow> string" where
  "Itoa i = FormatInt i"

text \<open>\<open>strings.TrimPrefix\<close> and \<open>strings.TrimSuffix\<close>.\<close>

definition TrimPrefix :: "string \<Rightarrow> string \<Rightarrow> string" where
  "TrimPrefix s pre =
     (if take (length pre) s = pre then drop (length pre) s else s)"

definition TrimSuffix :: "string \<Rightarrow> string \<Rightarrow> string" where
  "TrimSuffix s suf =
     (if length suf \<le> length s \<and> drop (length s - length suf) s = suf
      then take (length s - length suf) s else s)"


definition Intn :: "nat \<Rightarrow> int \<Rightarrow> int option" where
  "Intn raw n = (if n \<le> 0 then None else Some (int raw mod n))"

section \<open>Request constructors\<close>

definition newPutObjectReq ::
  "collab \<Rightarrow> ServerConfig \<Rightarrow> string \<Rightarrow> string \<Rightarrow> bytes \<Rightarrow> error + Request" where
  "newPutObjectReq cl config bucket object objectData =
     (let putObjectReq = \<lparr>bucketName = [], objectName = [], queryValues = Map.empty,
            customHeader = Map.empty, contentLength = 0, contentBody = None\<rparr>;
          putObjectReq = putObjectReq\<lparr>bucketName := bucket\<rparr>;
          putObjectReq = putObjectReq\<lparr>objectName := object\<rparr>
      in case computeHash cl objectData of
           Inl err \<Rightarrow> Inl err
         | Inr (md5Sum, sha256Sum, len) \<Rightarrow>
            (let putObjectReq = putObjectReq\<lparr>customHeader :=
                   headerSet (customHeader putObjectReq) ''Content-MD5'' (base64Encode cl md5Sum)\<rparr>;
                 putObjectReq = putObjectReq\<lparr>customHeader :=
                   headerSet (customHeader putObjectReq) ''X-Amz-Content-Sha256''
                     (hexEncode cl sha256Sum)\<rparr>;
                 putObjectReq = putObjectReq\<lparr>customHeader :=
                   headerSet (customHeader putObjectReq) ''User-Agent'' (appUserAgent cl)\<rparr>;
                 putObjectReq = putObjectReq\<lparr>contentLength := len\<rparr>;
                 putObjectReq = putObjectReq\<lparr>contentBody := Some objectData\<rparr>
             in Inr putObjectReq))"

definition newUploadPartReq ::
  "collab \<Rightarrow> ServerConfig \<Rightarrow> string \<Rightarrow> string \<Rightarrow> string \<Rightarrow> int \<Rightarrow> bytes \<Rightarrow> error + Request" where
  "newUploadPartReq cl config bucket object uploadID partNumber partData =
     (let uploadPartReq = \<lparr>bucketName = [], objectName = [], queryValues = Map.empty,
            customHeader = Map.empty, contentLength = 0, contentBody = None\<rparr>;
          uploadPartReq = uploadPartReq\<lparr>bucketName := bucket\<rparr>;
          uploadPartReq = uploadPartReq\<lparr>objectName := object\<rparr>;
          urlValues = Map.empty;
          urlValues = valuesSet urlValues ''partNumber'' (Itoa partNumber);
          urlValues = valuesSet urlValues ''uploadId'' uploadID;
          uploadPartReq = uploadPartReq\<lparr>queryValues := urlValues\<rparr>
      in case computeHash cl partData of
           Inl err \<Rightarrow> Inl err
         | Inr (md5Sum, sha256Sum, len) \<Rightarrow>
            (let uploadPartReq = uploadPartReq\<lparr>contentBody := Some partData\<rparr>;
                 uploadPartReq = uploadPartReq\<lparr>contentLength := len\<rparr>;
                 uploadPartReq = uploadPartReq\<lparr>customHeader :=
                   headerSet (customHeader uploadPartReq) ''X-Amz-Content-Sha256''
                     (hexEncode cl sha256Sum)\<rparr>;
                 uploadPartReq = uploadPartReq\<lparr>customHeader :=
                   headerSet (customHeader uploadPartReq) ''Content-MD5'' (base64Encode cl md5Sum)\<rparr>
             in Inr uploadPartReq))"

definition newGetObjectRangeReq ::
  "collab \<Rightarrow> ServerConfig \<Rightarrow> string \<Rightarrow> string \<Rightarrow> int \<Rightarrow> int \<Rightarrow> error + Request" where
  "newGetObjectRangeReq cl config bucket object startRange endRange =
     (let getObjectRangeReq = \<lparr>bucketName = [], objectName = [], queryValues = Map.empty,
            customHeader = Map.empty, contentLength = 0, contentBody = None\<rparr>;
          getObjectRangeReq = getObjectRangeReq\<lparr>bucketName := bucket\<rparr>;
          getObjectRangeReq = getObjectRangeReq\<lparr>objectName := object\<rparr>
      in case computeHash cl [] of
           Inl err \<Rightarrow> Inl err
         | Inr (md5Sum, sha256Sum, len) \<Rightarrow>
            (let getObjectRangeReq = getObjectRangeReq\<lparr>customHeader :=
                   headerSet (customHeader getObjectRangeReq) ''Range''
                     (''bytes='' @ FormatInt startRange @ ''-'' @ FormatInt endRange)\<rparr>;
                 getObjectRangeReq = getObjectRangeReq\<lparr>customHeader :=
                   headerSet (customHeader getObjectRangeReq) ''User-Agent'' (appUserAgent cl)\<rparr>;
                 getObjectRangeReq = getObjectRangeReq\<lparr>customHeader :=
                   headerSet (customHeader getObjectRangeReq) ''X-Amz-Content-Sha256''
                     (hexEncode cl sha256Sum)\<rparr>
             in Inr getObjectRangeReq))"

definition newRemoveObjectReq ::
  "collab \<Rightarrow> ServerConfig \<Rightarrow> string \<Rightarrow> string \<Rightarrow> error + Request" where
  "newRemoveObjectReq cl config bucket object =
     (let removeObjectReq = \<lparr>bucketName = [], objectName = [], queryValues = Map.empty,
            customHeader = Map.empty, contentLength = 0, contentBody = None\<rparr>;
          removeObjectReq = removeObjectReq\<lparr>bucketName := bucket\<rparr>;
          removeObjectReq = removeObjectReq\<lparr>objectName := object\<rparr>
      in case computeHash cl [] of
           Inl err \<Rightarrow> Inl err
         | Inr (md5Sum, sha256Sum, len) \<Rightarrow>
            (let removeObjectReq = removeObjectReq\<lparr>customHeader :=
                   headerSet (customHeader removeObjectReq) ''User-Agent'' (appUserAgent cl)\<rparr>;
                 removeObjectReq = removeObjectReq\<lparr>customHeader :=
                   headerSet (customHeader removeObjectReq) ''X-Amz-Content-Sha256''
                     (hexEncode cl sha256Sum)\<rparr>
             in Inr removeObjectReq))"

definition newGetObjectIfNoneMatchReq ::
  "collab \<Rightarrow> ServerConfig \<Rightarrow> string \<Rightarrow> string \<Rightarrow> string \<Rightarrow> error + Request" where
  "newGetObjectIfNoneMatchReq cl config bucket object etag =
     (let getObjectIfNoneMatchReq = \<lparr>bucketName = [], objectName = [],
            queryValues = Map.empty, customHeader = Map.empty, contentLength = 0,
            contentBody = None\<rparr>;
          getObjectIfNoneMatchReq = getObjectIfNoneMatchReq\<lparr>bucketName := bucket\<rparr>;
          getObjectIfNoneMatchReq = getObjectIfNoneMatchReq\<lparr>objectName := object\<rparr>
      in case computeHash cl [] of
           Inl err \<Rightarrow> Inl err
         | Inr (md5Sum, sha256Sum, len) \<Rightarrow>
            (let getObjectIfNoneMatchReq = getObjectIfNoneMatchReq\<lparr>customHeader :=
                   headerSet (customHeader getObjectIfNoneMatchReq) ''If-None-Match'' etag\<rparr>;
                 getObjectIfNoneMatchReq = getObjectIfNoneMatchReq\<lparr>customHeader :=
                   headerSet (customHeader getObjectIfNoneMatchReq) ''User-Agent''
                     (appUserAgent cl)\<rparr>;
                 getObjectIfNoneMatchReq = getObjectIfNoneMatchReq\<lparr>customHeader :=
                   headerSet (customHeader getObjectIfNoneMatchReq) ''X-Amz-Content-Sha256''
                     (hexEncode cl sha256Sum)\<rparr>
             in Inr getObjectIfNoneMatchReq))"

text \<open>
  The If-Modified-Since constructor takes a \<open>time.Time\<close> and formats it with
  \<open>http.TimeFormat\<close>; the model takes the formatted text.
\<close>

definition newGetObjectIfModifiedSinceReq ::
  "collab \<Rightarrow> ServerConfig \<Rightarrow> string \<Rightarrow> string \<Rightarrow> string \<Rightarrow> error + Request" where
  "newGetObjectIfModifiedSinceReq cl config bucket object lastModified =
     (let getObjectIfModifiedReq = \<lparr>bucketName = [], objectName = [],
            queryValues = Map.empty, customHeader = Map.empty, contentLength = 0,
            contentBody = None\<rparr>;
          getObjectIfModifiedReq = getObjectIfModifiedReq\<lparr>bucketName := bucket\<rparr>;
          getObjectIfModifiedReq = getObjectIfModifiedReq\<lparr>objectName := object\<rparr>
      in case computeHash cl [] of
           Inl err \<Rightarrow> Inl err
         | Inr (md5Sum, sha256Sum, len) \<Rightarrow>
            (let getObjectIfModifiedReq = getObjectIfModifiedReq\<lparr>customHeader :=
                   headerSet (customHeader getObjectIfModifiedReq) ''X-Amz-Content-Sha256''
                     (hexEncode cl sha256Sum)\<rparr>;
                 getObjectIfModifiedReq = getObjectIfModifiedReq\<lparr>customHeader :=
                   headerSet (customHeader getObjectIfModifiedReq) ''If-Modified-Since''
                     lastModified\<rparr>;
                 getObjectIfModifiedReq = getObjectIfModifiedReq\<lparr>customHeader :=
                   headerSet (customHeader getObjectIfModifiedReq) ''User-Agent''
                     (appUserAgent cl)\<rparr>
             in Inr getObjectIfModifiedReq))"

section \<open>Concurrent tasks\<close>

text \<open>
  A task is the body of one \<open>go func\<close>. Tasks share nothing but the channel they send
  on and the registry, so a task is modelled by the trace of what it does to the world
  outside it, in program order: a response it obtains from the executor, a deferred
  \<open>closeResponse\<close> that runs when it returns, a send on the result channel, a store
  into a slot of \<open>objects\<close>, a runtime panic. The order in which the sends of different
  tasks reach the channel is the scheduler's choice and is an input of each test case.
\<close>

datatype 'm event =
    GotResponse Response
  | CloseResponse Response
  | Send 'm
  | StoreObject nat ObjectInfo
  | Panic

definition sends :: "'m event list \<Rightarrow> 'm list" where
  "sends tr = concat (map (\<lambda>ev. case ev of Send m \<Rightarrow> [m] | _ \<Rightarrow> []) tr)"

definition stores :: "'m event list \<Rightarrow> (nat \<times> ObjectInfo) list" where
  "stores tr = concat (map (\<lambda>ev. case ev of StoreObject i ob \<Rightarrow> [(i, ob)] | _ \<Rightarrow> []) tr)"

definition responsesGot :: "'m event list \<Rightarrow> Response list" where
  "responsesGot tr = concat (map (\<lambda>ev. case ev of GotResponse r \<Rightarrow> [r] | _ \<Rightarrow> []) tr)"

definition responsesClosed :: "'m event list \<Rightarrow> Response list" where
  "responsesClosed tr = concat (map (\<lambda>ev. case ev of CloseResponse r \<Rightarrow> [r] | _ \<Rightarrow> []) tr)"

text \<open>
  What a task draws from outside the program: the random payload of a PUT, two raw draws
  of the random generator, what \<open>io.ReadFull(crand.Reader, buf)\<close> gives for a buffer of
  a given length, and what \<open>config.execRequest\<close> answers.
\<close>

record taskEnv =
  randString :: bytes
  draw1 :: nat
  draw2 :: nat
  readFull :: "nat \<Rightarrow> error + bytes"
  execRequest :: "string \<Rightarrow> Request \<Rightarrow> error + Response"

record BucketInfo =
  Name :: string

definition StatusOK :: int where "StatusOK = 200"

subsection \<open>PUT object\<close>

text \<open>The task launched by mainPutObject for the index \<open>cur\<close>.\<close>

definition putObjectTask ::
  "collab \<Rightarrow> ServerConfig \<Rightarrow> taskEnv \<Rightarrow> BucketInfo \<Rightarrow> nat \<Rightarrow> error option event list" where
  "putObjectTask cl config env bucket cur =
     (let object = \<lparr>Key = [], oBody = [], oETag = [], oSize = 0, UploadID = []\<rparr>;
          object = object\<lparr>Key := ''s3verify-put-parallel'' @ Itoa (int cur)\<rparr>;
          body = randString env;
          object = object\<lparr>oBody := body\<rparr>
      in case newPutObjectReq cl config (Name bucket) (Key object) (oBody object) of
           Inl err \<Rightarrow> [Send (Some err)]
         | Inr req \<Rightarrow>
            (case execRequest env ''PUT'' req of
               Inl err \<Rightarrow> [Send (Some err)]
             | Inr res \<Rightarrow>
                (case putObjectVerify cl res StatusOK of
                   Some err \<Rightarrow> [GotResponse res, Send (Some err), CloseResponse res]
                 | None \<Rightarrow>
                    [GotResponse res, StoreObject cur object, Send None, CloseResponse res])))"

text \<open>The stores of a trace, applied to the \<open>objects\<close> slice.\<close>

fun applyStores :: "(nat \<times> ObjectInfo) list \<Rightarrow> ObjectInfo option list \<Rightarrow> ObjectInfo option list" where
  "applyStores [] objs = objs"
| "applyStores ((i, ob) # ws) objs = applyStores ws (objs[i := Some ob])"

text \<open>
  mainPutObject: one task for each slot of \<open>objects\<close>, then the aggregation loop.
  \<open>envs cur\<close> is the environment of the task with index \<open>cur\<close>; \<open>arrival\<close> lists the
  task indices in the order in which their sends reach \<open>errCh\<close> (there is no task, and
  so no send, for an index outside the slice). The registry of the
  result is the one that stands once every launched task has come to its end.
  \<open>Drained\<close> is the return of true.
\<close>

definition mainPutObject ::
  "collab \<Rightarrow> ServerConfig \<Rightarrow> (nat \<Rightarrow> taskEnv) \<Rightarrow> nat list \<Rightarrow> BucketInfo list \<Rightarrow> registry
     \<Rightarrow> (registry \<times> error option chan) ending" where
  "mainPutObject cl config envs arrival validBuckets reg =
     (case validBuckets of
        [] \<Rightarrow> Panicked
      | bucket # _ \<Rightarrow>
         (let task = (\<lambda>cur. if cur < length (objects reg)
                            then putObjectTask cl config (envs cur) bucket cur
                            else []);
              errCh = \<lparr>pending = concat (map (\<lambda>cur. sends (task cur)) arrival),
                       closed = False\<rparr>;
              reg' = reg\<lparr>objects :=
                       applyStores (concat (map (\<lambda>cur. stores (task cur)) arrival))
                         (objects reg)\<rparr>;
              count = length (objects reg)
          in map_ending (\<lambda>ch. (reg', ch)) (errChLoop count errCh)))"

subsection \<open>Upload part\<close>

text \<open>The task launched by mainUploadPart for one multipart object.\<close>

definition uploadPartTask ::
  "collab \<Rightarrow> ServerConfig \<Rightarrow> taskEnv \<Rightarrow> BucketInfo \<Rightarrow> string \<Rightarrow> string \<Rightarrow> int
     \<Rightarrow> partChannel event list" where
  "uploadPartTask cl config env bucket objectKey objectUploadID cur =
     (let part = \<lparr>PartNumber = 0, ETag = [], Size = 0\<rparr>
      in case Intn (draw1 env) (2 ^ 20) of
           None \<Rightarrow> [Panic]
         | Some r \<Rightarrow>
            (let len = nat (r + 4 * 1024 * 1024);
                 part = part\<lparr>PartNumber := 1\<rparr>;
                 part = part\<lparr>Size := int len\<rparr>
             in case readFull env len of
                  Inl err \<Rightarrow> [Send \<lparr>index = cur, objPart = part, perr = Some err\<rparr>]
                | Inr objectData \<Rightarrow>
                   (case newUploadPartReq cl config (Name bucket) objectKey objectUploadID 1
                           objectData of
                      Inl err \<Rightarrow> [Send \<lparr>index = cur, objPart = part, perr = Some err\<rparr>]
                    | Inr req \<Rightarrow>
                       (case execRequest env ''PUT'' req of
                          Inl err \<Rightarrow> [Send \<lparr>index = cur, objPart = part, perr = Some err\<rparr>]
                        | Inr res \<Rightarrow>
                           (case uploadPartVerify cl res StatusOK of
                              Some err \<Rightarrow>
                                [GotResponse res,
                                 Send \<lparr>index = cur, objPart = part, perr = Some err\<rparr>,
                                 CloseResponse res]
                            | None \<Rightarrow>
                               (let part = part\<lparr>ETag :=
                                      TrimPrefix (headerGet (Header res) ''ETag'') [CHR 0x22]\<rparr>;
                                    part = part\<lparr>ETag := TrimSuffix (ETag part) [CHR 0x22]\<rparr>
                                in [GotResponse res,
                                    Send \<lparr>index = cur, objPart = part, perr = None\<rparr>,
                                    CloseResponse res]))))))"

text \<open>
  mainUploadPart: one task for each entry of \<open>multipartObjects\<close> (a list declared
  outside the sources at hand, so an input here; its entries are pointers, and reading
  the key of a nil entry panics), then the aggregation loop. \<open>arrival\<close> lists the task
  indices in the order in which their sends reach \<open>partCh\<close> (there is no task for an
  index outside the list).
\<close>

definition mainUploadPart ::
  "collab \<Rightarrow> ServerConfig \<Rightarrow> (nat \<Rightarrow> taskEnv) \<Rightarrow> nat list \<Rightarrow> BucketInfo list
     \<Rightarrow> ObjectInfo option list \<Rightarrow> registry \<Rightarrow> (registry \<times> partChannel chan) ending" where
  "mainUploadPart cl config envs arrival validBuckets multipartObjects reg =
     (case validBuckets of
        [] \<Rightarrow> Panicked
      | bucket # _ \<Rightarrow>
         if None \<in> set multipartObjects then Panicked
         else
           (let task = (\<lambda>i. if i < length multipartObjects
                          then (case multipartObjects ! i of
                                  None \<Rightarrow> [Panic]
                                | Some object \<Rightarrow>
                                   uploadPartTask cl config (envs i) bucket (Key object)
                                     (UploadID object) (int i))
                          else []);
                partCh = \<lparr>pending = concat (map (\<lambda>i. sends (task i)) arrival),
                          closed = False\<rparr>;
                count = length multipartObjects
            in uploadPartLoop count partCh reg))"

subsection \<open>GET object with a range\<close>




section \<open>GET object with If-Match: the sequential test (get-object-if-match.go)\<close>

text \<open>
  This file uses \<open>*http.Request\<close> and a package-level request variable, so the model
  has an explicit memory: a heap of request structs and a heap of header maps, each
  addressed by position, and the pointer variable \<open>GetObjectIfMatchReq\<close>. A struct
  holds the address of its header map, as a Go struct holds a reference to its map.
\<close>

record httpRequest =
  Method :: string
  URL :: "string option"
  HeaderAt :: nat

record memory =
  requests :: "httpRequest list"
  headerMaps :: "header list"
  GetObjectIfMatchReq :: nat

text \<open>The memory after package initialisation: the request literal of the source.\<close>

definition initialMemory :: "collab \<Rightarrow> memory" where
  "initialMemory cl =
     \<lparr>requests = [\<lparr>Method = ''GET'', URL = None, HeaderAt = 0\<rparr>],
      headerMaps = [[''X-Amz-Content-Sha256'' \<mapsto> [hexEncode cl (Sum256 cl [])],
                     ''If-Match'' \<mapsto> [[]]]],
      GetObjectIfMatchReq = 0\<rparr>"

text \<open>
  Reading through an address. Go has no dangling pointers; an address outside the heap
  cannot arise from the operations below and reads as \<open>None\<close>.
\<close>

definition deref :: "'a list \<Rightarrow> nat \<Rightarrow> 'a option" where
  "deref heap p = (if p < length heap then Some (heap ! p) else None)"

text \<open>
  Modelled from the spec: the signer \<open>signv4.SignV4\<close> is an external collaborator that
  produces authorization headers from method, path, headers and credentials and returns
  the signed request. It receives the request struct by value and returns a pointer: the
  copy it received shares the header map of the caller's struct, the authorization
  value is set on that map, and the copy is placed at a new address.
\<close>

definition SignV4 ::
  "collab \<Rightarrow> httpRequest \<Rightarrow> string \<Rightarrow> string \<Rightarrow> string \<Rightarrow> memory \<Rightarrow> (nat \<times> memory) option" where
  "SignV4 cl req access secret region m =
     (case deref (headerMaps m) (HeaderAt req) of
        None \<Rightarrow> None
      | Some hdr \<Rightarrow>
         (let auth = authorization cl (Method req) (URL req) hdr access secret region;
              m = m\<lparr>headerMaps := (headerMaps m)[HeaderAt req := hdr(''Authorization'' \<mapsto> [auth])]\<rparr>;
              p = length (requests m);
              m = m\<lparr>requests := requests m @ [req]\<rparr>
          in Some (p, m)))"

text \<open>
  NewGetObjectIfMatchReq fills in the request the package variable points to, signs it
  and stores the signer's pointer back into the variable. The result is the error or the
  returned pointer, with the memory left behind; \<open>None\<close> is a read through an address
  outside the heap.
\<close>

definition NewGetObjectIfMatchReq ::
  "collab \<Rightarrow> ServerConfig \<Rightarrow> string \<Rightarrow> string \<Rightarrow> string \<Rightarrow> memory
     \<Rightarrow> ((error + nat) \<times> memory) option" where
  "NewGetObjectIfMatchReq cl config bucket object etag m =
     (case makeTargetURL cl (Endpoint config) bucket object (Region config) of
        Inl err \<Rightarrow> Some (Inl err, m)
      | Inr targetURL \<Rightarrow>
         (case deref (requests m) (GetObjectIfMatchReq m) of
            None \<Rightarrow> None
          | Some req \<Rightarrow>
             (case deref (headerMaps m) (HeaderAt req) of
                None \<Rightarrow> None
              | Some hdr \<Rightarrow>
                 (let m = m\<lparr>headerMaps :=
                            (headerMaps m)[HeaderAt req := hdr(''If-Match'' \<mapsto> [etag])]\<rparr>;
                      req = req\<lparr>URL := Some targetURL\<rparr>;
                      m = m\<lparr>requests := (requests m)[GetObjectIfMatchReq m := req]\<rparr>
                  in case SignV4 cl req (Access config) (Secret config) (Region config) m of
                       None \<Rightarrow> None
                     | Some (p, m) \<Rightarrow>
                        (let m = m\<lparr>GetObjectIfMatchReq := p\<rparr>
                         in Some (Inr (GetObjectIfMatchReq m), m))))))"

text \<open>
  What the sequential test draws from outside the program: the random names and buffer,
  the minio client calls of the set-up, the executor (which sees the request struct and
  the contents of its header map at the time of the call) and the clean-up.
\<close>

record ifMatchEnv =
  randBucketName :: string
  randObjectName :: string
  bufDraw :: nat
  readFullBuf :: "nat \<Rightarrow> bytes \<times> error option"
  urlParse :: "string \<Rightarrow> error + string"
  minioNew :: "string \<Rightarrow> string \<Rightarrow> string \<Rightarrow> bool \<Rightarrow> error option"
  MakeBucket :: "string \<Rightarrow> string \<Rightarrow> error option"
  PutObject :: "string \<Rightarrow> string \<Rightarrow> bytes \<Rightarrow> string \<Rightarrow> error option"
  StatObject :: "string \<Rightarrow> string \<Rightarrow> error + string"
  ExecRequest :: "httpRequest \<Rightarrow> header \<Rightarrow> error + Response"
  GetObjectCleanUp :: "ServerConfig \<Rightarrow> string \<Rightarrow> string \<Rightarrow> error option"

text \<open>
  GetObjectIfMatchInit: the names, the ETag, the buffer and the error it returns. The
  draw \<open>rand.Intn(1 << 20)\<close> cannot panic; the buffer has that many bytes and 32 KiB.
\<close>

definition GetObjectIfMatchInit ::
  "ifMatchEnv \<Rightarrow> ServerConfig \<Rightarrow> string \<times> string \<times> string \<times> bytes \<times> error option" where
  "GetObjectIfMatchInit env config =
     (let bucket = randBucketName env;
          object = randObjectName env;
          etag = [];
          (buf, rerr) = readFullBuf env (bufDraw env mod 2 ^ 20 + 32 * 1024)
      in case rerr of
           Some e \<Rightarrow> (bucket, object, etag, buf, Some e)
         | None \<Rightarrow>
            (case urlParse env (Endpoint config) of
               Inl e \<Rightarrow> (bucket, object, etag, buf, Some e)
             | Inr host \<Rightarrow>
                (case minioNew env host (Access config) (Secret config) True of
                   Some e \<Rightarrow> (bucket, object, etag, buf, Some e)
                 | None \<Rightarrow>
                    (case MakeBucket env bucket (Region config) of
                       Some e \<Rightarrow> (bucket, object, etag, buf, Some e)
                     | None \<Rightarrow>
                        (case PutObject env bucket object buf ''binary/octet-stream'' of
                           Some e \<Rightarrow> (bucket, object, etag, buf, Some e)
                         | None \<Rightarrow>
                            (case StatObject env bucket object of
                               Inl e \<Rightarrow> (bucket, object, etag, buf, Some e)
                             | Inr objETag \<Rightarrow> (bucket, object, objETag, buf, None)))))))"

text \<open>
  The exit the test takes after a failure: \<open>if errC := GetObjectCleanUp(...); errC != nil
  { return errC }; return err\<close>, written out at each of its seven failure branches.
\<close>

definition cleanUpAndReturn ::
  "ifMatchEnv \<Rightarrow> ServerConfig \<Rightarrow> string \<Rightarrow> string \<Rightarrow> error \<Rightarrow> error option" where
  "cleanUpAndReturn env config bucket object e =
     (case GetObjectCleanUp env config bucket object of
        Some errC \<Rightarrow> Some errC
      | None \<Rightarrow> Some e)"

text \<open>The request struct behind a pointer, with the contents of its header map.\<close>

definition requestAt :: "memory \<Rightarrow> nat \<Rightarrow> (httpRequest \<times> header) option" where
  "requestAt m p =
     (case deref (requests m) p of
        None \<Rightarrow> None
      | Some req \<Rightarrow>
         (case deref (headerMaps m) (HeaderAt req) of
            None \<Rightarrow> None
          | Some hdr \<Rightarrow> Some (req, hdr)))"

text \<open>
  mainGetObjectIfMatch: the returned error, the trace of responses obtained and closed,
  and the memory left behind. The source has no call that closes a response.
\<close>

definition mainGetObjectIfMatch ::
  "collab \<Rightarrow> ifMatchEnv \<Rightarrow> ServerConfig \<Rightarrow> memory
     \<Rightarrow> (error option \<times> unit event list \<times> memory) option" where
  "mainGetObjectIfMatch cl env config m =
     (let invalidETag = ''1234567890''
      in case GetObjectIfMatchInit env config of
           (bucket, object, etag, buf, Some e) \<Rightarrow>
             Some (cleanUpAndReturn env config bucket object e, [], m)
         | (bucket, object, etag, buf, None) \<Rightarrow>
            (case NewGetObjectIfMatchReq cl config bucket object etag m of
               None \<Rightarrow> None
             | Some (Inl e, m1) \<Rightarrow> Some (cleanUpAndReturn env config bucket object e, [], m1)
             | Some (Inr req, m1) \<Rightarrow>
                (case requestAt m1 req of
                   None \<Rightarrow> None
                 | Some (rq, hdr) \<Rightarrow>
                    (case ExecRequest env rq hdr of
                       Inl e \<Rightarrow> Some (cleanUpAndReturn env config bucket object e, [], m1)
                     | Inr res \<Rightarrow>
                        (case GetObjectIfMatchVerify cl res buf ''200 OK'' False of
                           Some e \<Rightarrow>
                             Some (cleanUpAndReturn env config bucket object e,
                                   [GotResponse res], m1)
                         | None \<Rightarrow>
                            (case NewGetObjectIfMatchReq cl config bucket object invalidETag m1 of
                               None \<Rightarrow> None
                             | Some (Inl e, m2) \<Rightarrow>
                                 Some (cleanUpAndReturn env config bucket object e,
                                       [GotResponse res], m2)
                             | Some (Inr badReq, m2) \<Rightarrow>
                                (case requestAt m2 badReq of
                                   None \<Rightarrow> None
                                 | Some (brq, bhdr) \<Rightarrow>
                                    (case ExecRequest env brq bhdr of
                                       Inl e \<Rightarrow>
                                         Some (cleanUpAndReturn env config bucket object e,
                                               [GotResponse res], m2)
                                     | Inr badRes \<Rightarrow>
                                        (case GetObjectIfMatchVerify cl badRes []
                                                ''412 Precondition Failed'' True of
                                           Some e \<Rightarrow>
                                             Some (cleanUpAndReturn env config bucket object e,
                                                   [GotResponse res, GotResponse badRes], m2)
                                         | None \<Rightarrow>
                                             Some (GetObjectCleanUp env config bucket object,
                                                   [GotResponse res, GotResponse badRes],
                                                   m2))))))))))"

section \<open>The by-value constructors in memory\<close>

text \<open>
  A \<open>Request\<close> is returned by value, but its \<open>customHeader\<close> field is a Go map and so
  a reference. To ask whether two requests share state, the six constructors are run
  here in the explicit memory: the struct holds the address of its header map,
  \<open>http.Header{}\<close> places an empty map at the next free address, and every
  \<open>customHeader.Set\<close> writes through the address. The bodies are the ones of the
  constructors above, statement for statement. The query values of an upload-part
  request are a map made and filled inside the constructor and are kept as a value.
\<close>

record RequestRef =
  refBucketName :: string
  refObjectName :: string
  refQueryValues :: "string \<rightharpoonup> string list"
  refCustomHeader :: "nat option"
  refContentLength :: int
  refContentBody :: "bytes option"

text \<open>\<open>http.Header{}\<close>: a new, empty map at an address no earlier map has.\<close>

definition newHeaderMap :: "memory \<Rightarrow> nat \<times> memory" where
  "newHeaderMap m = (length (headerMaps m), m\<lparr>headerMaps := headerMaps m @ [Map.empty]\<rparr>)"

text \<open>\<open>h.Set(key, v)\<close> on the map behind the address \<open>h\<close>.\<close>

definition headerSetAt :: "memory \<Rightarrow> nat \<Rightarrow> string \<Rightarrow> string \<Rightarrow> memory" where
  "headerSetAt m h key v =
     m\<lparr>headerMaps := (headerMaps m)[h := headerSet (headerMaps m ! h) key v]\<rparr>"

definition newPutObjectReq_mem ::
  "collab \<Rightarrow> ServerConfig \<Rightarrow> string \<Rightarrow> string \<Rightarrow> bytes \<Rightarrow> memory
     \<Rightarrow> (error + RequestRef) \<times> memory" where
  "newPutObjectReq_mem cl config bucket object objectData m0 =
     (let (h, m) = newHeaderMap m0;
          putObjectReq = \<lparr>refBucketName = [], refObjectName = [], refQueryValues = Map.empty,
            refCustomHeader = Some h, refContentLength = 0, refContentBody = None\<rparr>;
          putObjectReq = putObjectReq\<lparr>refBucketName := bucket\<rparr>;
          putObjectReq = putObjectReq\<lparr>refObjectName := object\<rparr>
      in case computeHash cl objectData of
           Inl err \<Rightarrow> (Inl err, m)
         | Inr (md5Sum, sha256Sum, len) \<Rightarrow>
            (let m = headerSetAt m h ''Content-MD5'' (base64Encode cl md5Sum);
                 m = headerSetAt m h ''X-Amz-Content-Sha256''
                     (hexEncode cl sha256Sum);
                 m = headerSetAt m h ''User-Agent'' (appUserAgent cl);
                 putObjectReq = putObjectReq\<lparr>refContentLength := len\<rparr>;
                 putObjectReq = putObjectReq\<lparr>refContentBody := Some objectData\<rparr>
             in (Inr putObjectReq, m)))"

definition newUploadPartReq_mem ::
  "collab \<Rightarrow> ServerConfig \<Rightarrow> string \<Rightarrow> string \<Rightarrow> string \<Rightarrow> int \<Rightarrow> bytes \<Rightarrow> memory
     \<Rightarrow> (error + RequestRef) \<times> memory" where
  "newUploadPartReq_mem cl config bucket object uploadID partNumber partData m0 =
     (let (h, m) = newHeaderMap m0;
          uploadPartReq = \<lparr>refBucketName = [], refObjectName = [], refQueryValues = Map.empty,
            refCustomHeader = Some h, refContentLength = 0, refContentBody = None\<rparr>;
          uploadPartReq = uploadPartReq\<lparr>refBucketName := bucket\<rparr>;
          uploadPartReq = uploadPartReq\<lparr>refObjectName := object\<rparr>;
          urlValues = Map.empty;
          urlValues = valuesSet urlValues ''partNumber'' (Itoa partNumber);
          urlValues = valuesSet urlValues ''uploadId'' uploadID;
          uploadPartReq = uploadPartReq\<lparr>refQueryValues := urlValues\<rparr>
      in case computeHash cl partData of
           Inl err \<Rightarrow> (Inl err, m)
         | Inr (md5Sum, sha256Sum, len) \<Rightarrow>
            (let uploadPartReq = uploadPartReq\<lparr>refContentBody := Some partData\<rparr>;
                 uploadPartReq = uploadPartReq\<lparr>refContentLength := len\<rparr>;
                 m = headerSetAt m h ''X-Amz-Content-Sha256''
                     (hexEncode cl sha256Sum);
                 m = headerSetAt m h ''Content-MD5'' (base64Encode cl md5Sum)
             in (Inr uploadPartReq, m)))"

definition newGetObjectRangeReq_mem ::
  "collab \<Rightarrow> ServerConfig \<Rightarrow> string \<Rightarrow> string \<Rightarrow> int \<Rightarrow> int \<Rightarrow> memory
     \<Rightarrow> (error + RequestRef) \<times> memory" where
  "newGetObjectRangeReq_mem cl config bucket object startRange endRange m0 =
     (let (h, m) = newHeaderMap m0;
          getObjectRangeReq = \<lparr>refBucketName = [], refObjectName = [], refQueryValues = Map.empty,
            refCustomHeader = Some h, refContentLength = 0, refContentBody = None\<rparr>;
          getObjectRangeReq = getObjectRangeReq\<lparr>refBucketName := bucket\<rparr>;
          getObjectRangeReq = getObjectRangeReq\<lparr>refObjectName := object\<rparr>
      in case computeHash cl [] of
           Inl err \<Rightarrow> (Inl err, m)
         | Inr (md5Sum, sha256Sum, len) \<Rightarrow>
            (let m = headerSetAt m h ''Range''
                     (''bytes='' @ FormatInt startRange @ ''-'' @ FormatInt endRange);
                 m = headerSetAt m h ''User-Agent'' (appUserAgent cl);
                 m = headerSetAt m h ''X-Amz-Content-Sha256''
                     (hexEncode cl sha256Sum)
             in (Inr getObjectRangeReq, m)))"

definition newRemoveObjectReq_mem ::
  "collab \<Rightarrow> ServerConfig \<Rightarrow> string \<Rightarrow> string \<Rightarrow> memory
     \<Rightarrow> (error + RequestRef) \<times> memory" where
  "newRemoveObjectReq_mem cl config bucket object m0 =
     (let (h, m) = newHeaderMap m0;
          removeObjectReq = \<lparr>refBucketName = [], refObjectName = [], refQueryValues = Map.empty,
            refCustomHeader = Some h, refContentLength = 0, refContentBody = None\<rparr>;
          removeObjectReq = removeObjectReq\<lparr>refBucketName := bucket\<rparr>;
          removeObjectReq = removeObjectReq\<lparr>refObjectName := object\<rparr>
      in case computeHash cl [] of
           Inl err \<Rightarrow> (Inl err, m)
         | Inr (md5Sum, sha256Sum, len) \<Rightarrow>
            (let m = headerSetAt m h ''User-Agent'' (appUserAgent cl);
                 m = headerSetAt m h ''X-Amz-Content-Sha256''
                     (hexEncode cl sha256Sum)
             in (Inr removeObjectReq, m)))"

definition newGetObjectIfNoneMatchReq_mem ::
  "collab \<Rightarrow> ServerConfig \<Rightarrow> string \<Rightarrow> string \<Rightarrow> string \<Rightarrow> memory
     \<Rightarrow> (error + RequestRef) \<times> memory" where
  "newGetObjectIfNoneMatchReq_mem cl config bucket object etag m0 =
     (let (h, m) = newHeaderMap m0;
          getObjectIfNoneMatchReq = \<lparr>refBucketName = [], refObjectName = [], refQueryValues = Map.empty,
            refCustomHeader = Some h, refContentLength = 0, refContentBody = None\<rparr>;
          getObjectIfNoneMatchReq = getObjectIfNoneMatchReq\<lparr>refBucketName := bucket\<rparr>;
          getObjectIfNoneMatchReq = getObjectIfNoneMatchReq\<lparr>refObjectName := object\<rparr>
      in case computeHash cl [] of
           Inl err \<Rightarrow> (Inl err, m)
         | Inr (md5Sum, sha256Sum, len) \<Rightarrow>
            (let m = headerSetAt m h ''If-None-Match'' etag;
                 m = headerSetAt m h ''User-Agent''
                     (appUserAgent cl);
                 m = headerSetAt m h ''X-Amz-Content-Sha256''
                     (hexEncode cl sha256Sum)
             in (Inr getObjectIfNoneMatchReq, m)))"

definition newGetObjectIfModifiedSinceReq_mem ::
  "collab \<Rightarrow> ServerConfig \<Rightarrow> string \<Rightarrow> string \<Rightarrow> string \<Rightarrow> memory
     \<Rightarrow> (error + RequestRef) \<times> memory" where
  "newGetObjectIfModifiedSinceReq_mem cl config bucket object lastModified m0 =
     (let (h, m) = newHeaderMap m0;
          getObjectIfModifiedReq = \<lparr>refBucketName = [], refObjectName = [], refQueryValues = Map.empty,
            refCustomHeader = Some h, refContentLength = 0, refContentBody = None\<rparr>;
          getObjectIfModifiedReq = getObjectIfModifiedReq\<lparr>refBucketName := bucket\<rparr>;
          getObjectIfModifiedReq = getObjectIfModifiedReq\<lparr>refObjectName := object\<rparr>
      in case computeHash cl [] of
           Inl err \<Rightarrow> (Inl err, m)
         | Inr (md5Sum, sha256Sum, len) \<Rightarrow>
            (let m = headerSetAt m h ''X-Amz-Content-Sha256''
                     (hexEncode cl sha256Sum);
                 m = headerSetAt m h ''If-Modified-Since''
                     lastModified;
                 m = headerSetAt m h ''User-Agent''
                     (appUserAgent cl)
             in (Inr getObjectIfModifiedReq, m)))"

text \<open>
  The value a request in memory stands for: its fields, with the contents of the map
  behind its header address.
\<close>

definition requestValue :: "memory \<Rightarrow> RequestRef \<Rightarrow> Request option" where
  "requestValue m r =
     (case refCustomHeader r of
        None \<Rightarrow> None
      | Some h \<Rightarrow>
         (case deref (headerMaps m) h of
            None \<Rightarrow> None
          | Some hdr \<Rightarrow>
             Some \<lparr>bucketName = refBucketName r, objectName = refObjectName r,
                   queryValues = refQueryValues r, customHeader = hdr,
                   contentLength = refContentLength r, contentBody = refContentBody r\<rparr>))"

text \<open>
  What it is for a constructor call, run from the memory \<open>m\<close>, to have built a request
  of its own: the request structs and the package variable of \<open>m\<close> are as they were,
  every header map of \<open>m\<close> is as it was, and the header address of the new request is
  none of the addresses of \<open>m\<close>.
\<close>

definition builtFresh :: "memory \<Rightarrow> (error + RequestRef) \<times> memory \<Rightarrow> bool" where
  "builtFresh m out =
     (case out of
        (res, m') \<Rightarrow>
          requests m' = requests m
        \<and> GetObjectIfMatchReq m' = GetObjectIfMatchReq m
        \<and> take (length (headerMaps m)) (headerMaps m') = headerMaps m
        \<and> (case res of
             Inl e \<Rightarrow> True
           | Inr r \<Rightarrow> (\<exists>h. refCustomHeader r = Some h \<and> length (headerMaps m) \<le> h
                          \<and> h < length (headerMaps m'))))"

text \<open>The in-memory constructor builds the request its by-value form describes.\<close>

definition sameRequest :: "error + Request \<Rightarrow> (error + RequestRef) \<times> memory \<Rightarrow> bool" where
  "sameRequest v out =
     (case out of
        (Inl e, m') \<Rightarrow> v = Inl e
      | (Inr r, m') \<Rightarrow> (case requestValue m' r of None \<Rightarrow> False | Some req \<Rightarrow> v = Inr req))"

section \<open>Concrete collaborators and inputs\<close>

text \<open>
  A small world to run the definitions in: a header validator that accepts everything
  (and one that rejects everything), a digest computer that never fails, a decoder that
  reads the one-byte document 1 as the error code PreconditionFailed and any other
  non-empty document as NoSuchKey.
\<close>

definition exampleCollab :: collab where
  "exampleCollab =
     \<lparr>verifyStandardHeaders = (\<lambda>h. None),
      verifyStandardHeadersRes = (\<lambda>r. None),
      computeHash = (\<lambda>b. Inr ([1], [2], int (length b))),
      base64Encode = (\<lambda>b. ''bWQ1''),
      hexEncode = (\<lambda>b. ''e3b0''),
      appUserAgent = ''s3verify'',
      xmlDecode = (\<lambda>b. if b = [] then Inl (DecodeFailure ''EOF'')
                         else if b = [1] then Inr \<lparr>Code = ''PreconditionFailed'', Message = []\<rparr>
                         else Inr \<lparr>Code = ''NoSuchKey'', Message = []\<rparr>),
      makeTargetURL = (\<lambda>endpoint bucket object region. Inr (endpoint @ ''/'' @ bucket @ ''/'' @ object)),
      Sum256 = (\<lambda>b. [2]),
      authorization = (\<lambda>method url hdr access secret region. ''AWS4-HMAC-SHA256'')\<rparr>"

definition rejectEveryHeader :: collab where
  "rejectEveryHeader =
     exampleCollab\<lparr>verifyStandardHeaders := (\<lambda>h. Some (StandardHeaderFailure ''missing'')),
                   verifyStandardHeadersRes := (\<lambda>r. Some (StandardHeaderFailure ''missing''))\<rparr>"

definition exampleConfig :: ServerConfig where
  "exampleConfig = \<lparr>Endpoint = ''https://play'', Region = ''us-east-1'',
     Access = ''access'', Secret = ''secret''\<rparr>"

definition exampleBucket :: BucketInfo where
  "exampleBucket = \<lparr>Name = ''s3verify-bucket''\<rparr>"

text \<open>Responses of a server: an empty 200, a 500, a 206 with two bytes, a 412 document.\<close>

definition emptyOK :: Response where
  "emptyOK = \<lparr>Status = ''200 OK'', StatusCode = 200,
     Header = [''Etag'' \<mapsto> [[CHR 0x22, CHR ''a'', CHR ''b'', CHR 0x22]]], Body = Inr []\<rparr>"

definition serverError :: Response where
  "serverError = \<lparr>Status = ''500 Internal Server Error'', StatusCode = 500,
     Header = Map.empty, Body = Inr []\<rparr>"

definition preconditionFailed :: Response where
  "preconditionFailed = \<lparr>Status = ''412 Precondition Failed'', StatusCode = 412,
     Header = Map.empty, Body = Inr [1]\<rparr>"

definition noSuchKey :: Response where
  "noSuchKey = \<lparr>Status = ''412 Precondition Failed'', StatusCode = 412,
     Header = Map.empty, Body = Inr [7]\<rparr>"

text \<open>A task environment whose server answers every request with the empty 200.\<close>

definition exampleEnv :: taskEnv where
  "exampleEnv = \<lparr>randString = [104, 105], draw1 = 7, draw2 = 9,
     readFull = (\<lambda>n. Inr (replicate n 0)),
     execRequest = (\<lambda>method req. Inr emptyOK)\<rparr>"

text \<open>
  An upload-part environment whose random source fills the buffer with zeros, two
  multipart objects, and results as upload-part tasks send them.
\<close>

definition zeroBuffer :: "nat \<Rightarrow> bytes" where
  "zeroBuffer n = replicate n 0"

definition uploadEnv :: taskEnv where
  "uploadEnv = exampleEnv\<lparr>readFull := (\<lambda>n. Inr (zeroBuffer n))\<rparr>"

definition partOf :: "int \<Rightarrow> string \<Rightarrow> partChannel" where
  "partOf i tag =
     \<lparr>index = i, objPart = \<lparr>PartNumber = 1, ETag = tag, Size = 4194311\<rparr>, perr = None\<rparr>"


definition multipartExample :: "ObjectInfo option list" where
  "multipartExample =
     [Some \<lparr>Key = ''s3verify/multipart/object'', oBody = [], oETag = [], oSize = 0,
            UploadID = ''u0''\<rparr>,
      Some \<lparr>Key = ''s3verify/multipart/abort'', oBody = [], oETag = [], oSize = 0,
            UploadID = ''u1''\<rparr>]"

text \<open>
  More of the small world: a 200 with the uploaded buffer, a 206 with three bytes, an
  environment for the sequential If-Match test whose server honours the header, and an
  environment for the range task.
\<close>

definition fullOK :: Response where
  "fullOK = \<lparr>Status = ''200 OK'', StatusCode = 200, Header = Map.empty,
     Body = Inr (zeroBuffer 32768)\<rparr>"


definition exampleIfMatchEnv :: ifMatchEnv where
  "exampleIfMatchEnv =
     \<lparr>randBucketName = ''s3verify-get-bucket'',
      randObjectName = ''s3verify-get-object'',
      bufDraw = 0,
      readFullBuf = (\<lambda>n. (zeroBuffer n, None)),
      urlParse = (\<lambda>endpoint. Inr ''play''),
      minioNew = (\<lambda>host access secret secure. None),
      MakeBucket = (\<lambda>bucket region. None),
      PutObject = (\<lambda>bucket object buf contentType. None),
      StatObject = (\<lambda>bucket object. Inr ''etag0''),
      ExecRequest = (\<lambda>req hdr. if hdr ''If-Match'' = Some [''etag0''] then Inr fullOK
                                 else Inr preconditionFailed),
      GetObjectCleanUp = (\<lambda>config bucket object. None)\<rparr>"


text \<open>The memory after the first and after the second build of an If-Match request.\<close>

definition memoryAfterFirst :: memory where
  "memoryAfterFirst =
     \<lparr>requests = [\<lparr>Method = ''GET'', URL = Some ''https://play/bucket/object'', HeaderAt = 0\<rparr>,
                  \<lparr>Method = ''GET'', URL = Some ''https://play/bucket/object'', HeaderAt = 0\<rparr>],
      headerMaps = [[''X-Amz-Content-Sha256'' \<mapsto> [''e3b0''], ''If-Match'' \<mapsto> [''etag0''],
                     ''Authorization'' \<mapsto> [''AWS4-HMAC-SHA256'']]],
      GetObjectIfMatchReq = 1\<rparr>"

definition memoryAfterSecond :: memory where
  "memoryAfterSecond =
     \<lparr>requests = [\<lparr>Method = ''GET'', URL = Some ''https://play/bucket/object'', HeaderAt = 0\<rparr>,
                  \<lparr>Method = ''GET'', URL = Some ''https://play/bucket/other'', HeaderAt = 0\<rparr>,
                  \<lparr>Method = ''GET'', URL = Some ''https://play/bucket/other'', HeaderAt = 0\<rparr>],
      headerMaps = [[''X-Amz-Content-Sha256'' \<mapsto> [''e3b0''], ''If-Match'' \<mapsto> [''1234567890''],
                     ''Authorization'' \<mapsto> [''AWS4-HMAC-SHA256'']]],
      GetObjectIfMatchReq = 2\<rparr>"



definition firstPut :: "(error + RequestRef) \<times> memory" where
  "firstPut = newPutObjectReq_mem exampleCollab exampleConfig ''bucket'' ''one'' [1]
                (initialMemory exampleCollab)"

definition secondPut :: "(error + RequestRef) \<times> memory" where
  "secondPut = newPutObjectReq_mem exampleCollab exampleConfig ''bucket'' ''two'' [2, 2]
                 (snd firstPut)"

definition putRef :: "string \<Rightarrow> nat \<Rightarrow> bytes \<Rightarrow> RequestRef" where
  "putRef object h body =
     \<lparr>refBucketName = ''bucket'', refObjectName = object, refQueryValues = Map.empty,
      refCustomHeader = Some h, refContentLength = int (length body),
      refContentBody = Some body\<rparr>"

section \<open>Observations\<close>

text \<open>
  What can be seen of a result: the responses a run of the sequential test obtained and
  closed, a header of a constructed request, the If-Match header and the URL behind a
  request pointer, and what the sequential test's two builds (the request, then the bad
  request) leave behind each pointer.
\<close>

definition leakReport ::
  "(error option \<times> unit event list \<times> memory) option
     \<Rightarrow> (error option \<times> Response list \<times> Response list) option" where
  "leakReport r =
     (case r of
        None \<Rightarrow> None
      | Some (e, tr, m) \<Rightarrow> Some (e, responsesGot tr, responsesClosed tr))"

definition headerOf :: "error + Request \<Rightarrow> string \<Rightarrow> string list option" where
  "headerOf r key = (case r of Inl e \<Rightarrow> None | Inr req \<Rightarrow> customHeader req key)"

definition built :: "error + Request \<Rightarrow> bool" where
  "built r = (case r of Inl e \<Rightarrow> False | Inr req \<Rightarrow> True)"

definition ifMatchSeen :: "memory \<Rightarrow> nat \<Rightarrow> string list option" where
  "ifMatchSeen m p =
     (case requestAt m p of None \<Rightarrow> None | Some (req, hdr) \<Rightarrow> hdr ''If-Match'')"

definition urlSeen :: "memory \<Rightarrow> nat \<Rightarrow> string option" where
  "urlSeen m p =
     (case requestAt m p of None \<Rightarrow> None | Some (req, hdr) \<Rightarrow> URL req)"

definition buildTwice ::
  "collab \<Rightarrow> ServerConfig \<Rightarrow> string \<Rightarrow> string \<Rightarrow> string \<Rightarrow> string \<Rightarrow> string \<Rightarrow> memory
     \<Rightarrow> (nat \<times> string list option \<times> nat \<times> string list option \<times> string list option) option" where
  "buildTwice cl config bucket object1 etag1 object2 etag2 m =
     (case NewGetObjectIfMatchReq cl config bucket object1 etag1 m of
        Some (Inr p1, m1) \<Rightarrow>
          (case NewGetObjectIfMatchReq cl config bucket object2 etag2 m1 of
             Some (Inr p2, m2) \<Rightarrow>
               Some (p1, ifMatchSeen m1 p1, p2, ifMatchSeen m2 p1, ifMatchSeen m2 p2)
           | _ \<Rightarrow> None)
      | _ \<Rightarrow> None)"

section \<open>Proof devices\<close>

text \<open>
  The registry update of one pass through the body of the upload-part aggregation loop,
  for a result that carries no error and an index within bounds. The loop is then a left
  fold of this step over the results it accepts.
\<close>

definition completeOf :: "partChannel \<Rightarrow> completePart" where
  "completeOf m = \<lparr>cpETag = ETag (objPart m), cpPartNumber = PartNumber (objPart m)\<rparr>"

definition storePart :: "registry \<Rightarrow> partChannel \<Rightarrow> registry" where
  "storePart reg m =
     reg\<lparr>objectParts := objectParts reg @ [objPart m],
         complMultipartUploads := (complMultipartUploads reg)[nat (index m) :=
            (complMultipartUploads reg ! nat (index m))
              \<lparr>Parts := Parts (complMultipartUploads reg ! nat (index m)) @ [completeOf m]\<rparr>]\<rparr>"

section \<open>Theorems\<close>

subsection \<open>Traces, header names and addresses\<close>

lemma sends_simps [simp]:
  "sends [] = []"
  "sends (Send m # tr) = m # sends tr"
  "sends (GotResponse r # tr) = sends tr"
  "sends (CloseResponse r # tr) = sends tr"
  "sends (StoreObject i ob # tr) = sends tr"
  "sends (Panic # tr) = sends tr"
  by (simp_all add: sends_def)

lemma stores_simps [simp]:
  "stores [] = []"
  "stores (Send m # tr) = stores tr"
  "stores (GotResponse r # tr) = stores tr"
  "stores (CloseResponse r # tr) = stores tr"
  "stores (StoreObject i ob # tr) = (i, ob) # stores tr"
  "stores (Panic # tr) = stores tr"
  by (simp_all add: stores_def)

lemma responsesGot_simps [simp]:
  "responsesGot [] = []"
  "responsesGot (Send m # tr) = responsesGot tr"
  "responsesGot (GotResponse r # tr) = r # responsesGot tr"
  "responsesGot (CloseResponse r # tr) = responsesGot tr"
  "responsesGot (StoreObject i ob # tr) = responsesGot tr"
  "responsesGot (Panic # tr) = responsesGot tr"
  by (simp_all add: responsesGot_def)

lemma responsesClosed_simps [simp]:
  "responsesClosed [] = []"
  "responsesClosed (Send m # tr) = responsesClosed tr"
  "responsesClosed (GotResponse r # tr) = responsesClosed tr"
  "responsesClosed (CloseResponse r # tr) = r # responsesClosed tr"
  "responsesClosed (StoreObject i ob # tr) = responsesClosed tr"
  "responsesClosed (Panic # tr) = responsesClosed tr"
  by (simp_all add: responsesClosed_def)

lemma canonical_keys:
  "CanonicalMIMEHeaderKey ''ETag'' = ''Etag''"
  "CanonicalMIMEHeaderKey ''Content-MD5'' = ''Content-Md5''"
  "CanonicalMIMEHeaderKey ''X-Amz-Content-Sha256'' = ''X-Amz-Content-Sha256''"
  "CanonicalMIMEHeaderKey ''User-Agent'' = ''User-Agent''"
  "CanonicalMIMEHeaderKey ''Range'' = ''Range''"
  "CanonicalMIMEHeaderKey ''If-None-Match'' = ''If-None-Match''"
  "CanonicalMIMEHeaderKey ''If-Modified-Since'' = ''If-Modified-Since''"
  by code_simp+

lemma Itoa_1: "Itoa 1 = ''1''"
  by code_simp

lemma deref_Some: "deref heap p = Some x \<longleftrightarrow> p < length heap \<and> x = heap ! p"
  by (auto simp: deref_def)

lemma concat_singletons:
  assumes "\<forall>i\<in>set xs. f i = [g i]"
  shows "concat (map f xs) = map g xs"
  using assms by (induction xs) simp_all

lemma filter_eq_distinct:
  assumes "distinct xs" "i \<in> set xs"
  shows "filter (\<lambda>k. k = i) xs = [i]"
  using assms
proof (induction xs)
  case Nil
  then show ?case by simp
next
  case (Cons x xs)
  show ?case
  proof (cases "x = i")
    case True
    with Cons.prems(1) have "filter (\<lambda>k. k = i) xs = []"
      by (auto simp: filter_empty_conv)
    with True show ?thesis by simp
  next
    case False
    with Cons show ?thesis by simp
  qed
qed

lemma filter_index_distinct:
  assumes "distinct (map index msgs)" "m \<in> set msgs"
  shows "filter (\<lambda>x. index x = index m) msgs = [m]"
  using assms
proof (induction msgs)
  case Nil
  then show ?case by simp
next
  case (Cons x msgs)
  show ?case
  proof (cases "x = m")
    case True
    have "filter (\<lambda>y. index y = index m) msgs = []"
      using Cons.prems(1) True by (force simp: filter_empty_conv image_iff)
    with True show ?thesis by simp
  next
    case False
    with Cons.prems have "m \<in> set msgs" by simp
    moreover from this Cons.prems(1) have "index x \<noteq> index m" by auto
    ultimately show ?thesis using Cons.IH Cons.prems(1) by simp
  qed
qed

subsection \<open>The order of the checks\<close>

lemma firstFailure_three:
  "firstFailure [a, b, c] =
     (case a of Some e \<Rightarrow> Some e | None \<Rightarrow> (case b of Some e \<Rightarrow> Some e | None \<Rightarrow> (case c of Some e \<Rightarrow> Some e | None \<Rightarrow> None)))"
  by (simp split: option.splits)

text \<open>
  C2, the claim as stated fails: on a response whose headers and status are both wrong,
  the PUT verifier does not give what a status-first verifier gives (it reports the
  header failure, the status-first order would report the status).
\<close>

theorem C2_counterexample:
  "putObjectVerify rejectEveryHeader serverError 200 = Some (StandardHeaderFailure ''missing'')
   \<and> verifyInSpecOrder (verifyStatusPutObject (StatusCode serverError) 200)
         (verifyHeaderPutObject rejectEveryHeader (Header serverError))
         (verifyBodyPutObject (Body serverError)) = Some (UnexpectedStatusCode 200 500)"
  by (simp add: putObjectVerify_def verifyInSpecOrder_def verifyStatusPutObject_def
      verifyHeaderPutObject_def rejectEveryHeader_def serverError_def exampleCollab_def)

text \<open>
  C2, as amended: every verifier applies its three checks in a fixed order and returns
  the error of the first check that fails, but the order is the verifier's own. PUT and
  GET If-None-Match check header, status, body; upload part checks body, status,
  header; GET If-Match, DELETE and GET If-Modified-Since check header, body, status.
\<close>

theorem C2_checks_in_source_order:
  "putObjectVerify cl res expected =
     firstFailure [verifyHeaderPutObject cl (Header res),
                   verifyStatusPutObject (StatusCode res) expected,
                   verifyBodyPutObject (Body res)]
   \<and> uploadPartVerify cl res expected =
     firstFailure [verifyBodyUploadPart (Body res),
                   verifyStatusUploadPart (StatusCode res) expected,
                   verifyHeaderUploadPart cl (Header res)]
   \<and> GetObjectIfMatchVerify cl res objectBody expectedStatus shouldFail =
     firstFailure [VerifyHeaderGetObjectIfMatch cl res,
                   VerifyBodyGetObjectIfMatch cl res objectBody shouldFail,
                   VerifyStatusGetObjectIfMatch res expectedStatus]
   \<and> removeObjectVerify cl res expected =
     firstFailure [verifyHeaderRemoveObject cl (Header res),
                   verifyBodyRemoveObject (Body res),
                   verifyStatusRemoveObject (StatusCode res) expected]
   \<and> getObjectIfNoneMatchVerify cl res objectBody expected =
     firstFailure [verifyHeaderGetObjectIfNoneMatch cl (Header res),
                   verifyStatusGetObjectIfNoneMatch (StatusCode res) expected,
                   verifyBodyGetObjectIfNoneMatch (Body res) objectBody]
   \<and> verifyGetObjectIfModifiedSince cl res objectBody expected =
     firstFailure [verifyHeaderGetObjectIfModifiedSince cl (Header res),
                   verifyBodyGetObjectIfModifiedSince (Body res) objectBody,
                   verifyStatusGetObjectIfModifiedSince (StatusCode res) expected]"
  unfolding firstFailure_three putObjectVerify_def uploadPartVerify_def GetObjectIfMatchVerify_def
    removeObjectVerify_def getObjectIfNoneMatchVerify_def verifyGetObjectIfModifiedSince_def
  by simp

subsection \<open>The aggregation loops\<close>

lemma storePart_length [simp]:
  "length (complMultipartUploads (storePart reg m)) = length (complMultipartUploads reg)"
  by (simp add: storePart_def)

lemma foldl_storePart_length [simp]:
  "length (complMultipartUploads (foldl storePart reg msgs)) = length (complMultipartUploads reg)"
  by (induction msgs arbitrary: reg) simp_all

lemma storePart_objects [simp]: "objects (storePart reg m) = objects reg"
  by (simp add: storePart_def)

lemma foldl_storePart_objects [simp]: "objects (foldl storePart reg msgs) = objects reg"
  by (induction msgs arbitrary: reg) simp_all

lemma foldl_storePart_objectParts:
  "objectParts (foldl storePart reg msgs) = objectParts reg @ map objPart msgs"
  by (induction msgs arbitrary: reg) (simp_all add: storePart_def)

lemma storePart_Parts:
  assumes "j < length (complMultipartUploads reg)" "0 \<le> index m"
  shows "Parts (complMultipartUploads (storePart reg m) ! j) =
           Parts (complMultipartUploads reg ! j) @ (if index m = int j then [completeOf m] else [])"
  using assms by (auto simp: storePart_def nth_list_update)

lemma foldl_storePart_Parts:
  assumes "j < length (complMultipartUploads reg)" "\<forall>m\<in>set msgs. 0 \<le> index m"
  shows "Parts (complMultipartUploads (foldl storePart reg msgs) ! j) =
           Parts (complMultipartUploads reg ! j) @ map completeOf (filter (\<lambda>m. index m = int j) msgs)"
  using assms
proof (induction msgs arbitrary: reg)
  case Nil
  then show ?case by simp
next
  case (Cons m msgs)
  have "Parts (complMultipartUploads (foldl storePart (storePart reg m) msgs) ! j) =
          Parts (complMultipartUploads (storePart reg m) ! j) @
            map completeOf (filter (\<lambda>m. index m = int j) msgs)"
    using Cons.prems by (intro Cons.IH) simp_all
  then show ?case using Cons.prems by (simp add: storePart_Parts)
qed

lemma uploadPartLoop_step:
  "perr m = None \<Longrightarrow> 0 \<le> index m \<Longrightarrow> index m < int (length (complMultipartUploads reg)) \<Longrightarrow>
   uploadPartLoop (Suc n) \<lparr>pending = m # rest, closed = c\<rparr> reg =
     uploadPartLoop n \<lparr>pending = rest, closed = c\<rparr> (storePart reg m)"
  by (simp add: receive_def storePart_def completeOf_def Let_def)

lemma uploadPartLoop_accepts:
  assumes "\<forall>m\<in>set msgs. perr m = None \<and> 0 \<le> index m \<and> index m < int (length (complMultipartUploads reg))"
  shows "uploadPartLoop (length msgs + k) \<lparr>pending = msgs @ later, closed = c\<rparr> reg =
           uploadPartLoop k \<lparr>pending = later, closed = c\<rparr> (foldl storePart reg msgs)"
  using assms
proof (induction msgs arbitrary: reg)
  case Nil
  then show ?case by simp
next
  case (Cons m msgs)
  then show ?case by (simp add: uploadPartLoop_step del: uploadPartLoop.simps)
qed

lemma uploadPartLoop_first_error:
  "perr m = Some e \<Longrightarrow>
   uploadPartLoop (Suc n) \<lparr>pending = m # rest, closed = c\<rparr> reg =
     ReturnedFalse (Some e) (reg, \<lparr>pending = rest, closed = c\<rparr>)"
  by (simp add: receive_def)

lemma uploadPartLoop_out_of_range:
  "perr m = None \<Longrightarrow> \<not> (0 \<le> index m \<and> index m < int (length (complMultipartUploads reg))) \<Longrightarrow>
   uploadPartLoop (Suc n) \<lparr>pending = m # rest, closed = c\<rparr> reg = Panicked"
  by (auto simp: receive_def Let_def)

text \<open>Drained only when every message was accepted.\<close>

lemma uploadPartLoop_drained:
  assumes "uploadPartLoop (length msgs) \<lparr>pending = msgs, closed = c\<rparr> reg = Drained (reg', ch')"
  shows "(\<forall>m\<in>set msgs. perr m = None \<and> 0 \<le> index m \<and> index m < int (length (complMultipartUploads reg)))
         \<and> reg' = foldl storePart reg msgs \<and> ch' = \<lparr>pending = [], closed = c\<rparr>"
  using assms
proof (induction msgs arbitrary: reg)
  case Nil
  then show ?case by simp
next
  case (Cons m msgs)
  show ?case
  proof (cases "perr m")
    case (Some e)
    with Cons.prems show ?thesis by (simp add: uploadPartLoop_first_error del: uploadPartLoop.simps)
  next
    case None
    show ?thesis
    proof (cases "0 \<le> index m \<and> index m < int (length (complMultipartUploads reg))")
      case False
      with None Cons.prems show ?thesis
        using uploadPartLoop_out_of_range[OF None False] by (simp del: uploadPartLoop.simps)
    next
      case True
      with None Cons.prems have
        "uploadPartLoop (length msgs) \<lparr>pending = msgs, closed = c\<rparr> (storePart reg m) = Drained (reg', ch')"
        by (simp add: uploadPartLoop_step del: uploadPartLoop.simps)
      from Cons.IH[OF this] True None show ?thesis by simp
    qed
  qed
qed


lemma uploadPartLoop_slots:
  assumes "\<forall>m\<in>set msgs. perr m = None \<and> 0 \<le> index m \<and>
             index m < int (length (complMultipartUploads reg))"
  shows "\<exists>reg'.
            uploadPartLoop (length msgs) \<lparr>pending = msgs, closed = c\<rparr> reg =
              Drained (reg', \<lparr>pending = [], closed = c\<rparr>)
          \<and> length (complMultipartUploads reg') = length (complMultipartUploads reg)
          \<and> (\<forall>j < length (complMultipartUploads reg).
                Parts (complMultipartUploads reg' ! j) =
                  Parts (complMultipartUploads reg ! j) @
                    map (\<lambda>m. \<lparr>cpETag = ETag (objPart m), cpPartNumber = PartNumber (objPart m)\<rparr>)
                      (filter (\<lambda>m. index m = int j) msgs))
          \<and> (distinct (map index msgs) \<longrightarrow>
               (\<forall>m\<in>set msgs.
                  Parts (complMultipartUploads reg' ! nat (index m)) =
                    Parts (complMultipartUploads reg ! nat (index m)) @
                      [\<lparr>cpETag = ETag (objPart m), cpPartNumber = PartNumber (objPart m)\<rparr>]))"
proof -
  let ?reg' = "foldl storePart reg msgs"
  have run: "uploadPartLoop (length msgs) \<lparr>pending = msgs, closed = c\<rparr> reg =
               Drained (?reg', \<lparr>pending = [], closed = c\<rparr>)"
    using uploadPartLoop_accepts[OF assms, of 0 "[]" c] by simp
  have nonneg: "\<forall>m\<in>set msgs. 0 \<le> index m" using assms by blast
  have slots: "Parts (complMultipartUploads ?reg' ! j) =
                  Parts (complMultipartUploads reg ! j) @
                    map (\<lambda>m. \<lparr>cpETag = ETag (objPart m), cpPartNumber = PartNumber (objPart m)\<rparr>)
                      (filter (\<lambda>m. index m = int j) msgs)"
    if "j < length (complMultipartUploads reg)" for j
    using foldl_storePart_Parts[OF that nonneg] unfolding completeOf_def .
  have own: "Parts (complMultipartUploads ?reg' ! nat (index m)) =
                    Parts (complMultipartUploads reg ! nat (index m)) @
                      [\<lparr>cpETag = ETag (objPart m), cpPartNumber = PartNumber (objPart m)\<rparr>]"
    if d: "distinct (map index msgs)" and m: "m \<in> set msgs" for m
  proof -
    from m assms have r: "nat (index m) < length (complMultipartUploads reg)" "0 \<le> index m"
      by auto
    from slots[OF r(1)] r(2) filter_index_distinct[OF d m] show ?thesis by simp
  qed
  show ?thesis using run slots own by (intro exI[of _ ?reg']) simp_all
qed

lemma errChLoop_drains_all:
  "errChLoop (length msgs) \<lparr>pending = msgs, closed = c\<rparr> =
     (case dropWhile (\<lambda>m. m = None) msgs of
        [] \<Rightarrow> Drained \<lparr>pending = [], closed = c\<rparr>
      | m # rest \<Rightarrow> ReturnedFalse m \<lparr>pending = rest, closed = c\<rparr>)"
  by (induction msgs) (auto simp: receive_def split: option.splits)





subsection \<open>The tasks\<close>

lemma newUploadPartReq_headers:
  assumes "newUploadPartReq cl config bucket object uploadID partNumber partData = Inr req"
  shows "customHeader req ''User-Agent'' = None
       \<and> customHeader req ''X-Amz-Content-Sha256'' \<noteq> None
       \<and> queryValues req ''partNumber'' = Some [Itoa partNumber]
       \<and> queryValues req ''uploadId'' = Some [uploadID]"
  using assms
  by (auto simp: newUploadPartReq_def headerSet_def valuesSet_def canonical_keys Let_def
      split: sum.splits prod.splits)

lemma newUploadPartReq_target:
  assumes "newUploadPartReq cl config bucket object uploadID partNumber partData = Inr req"
  shows "bucketName req = bucket \<and> objectName req = object \<and> contentBody req = Some partData"
  using assms
  by (auto simp: newUploadPartReq_def Let_def split: sum.splits prod.splits)

lemma putObjectTask_sends_one: "\<exists>m. sends (putObjectTask cl config env bucket cur) = [m]"
  by (simp add: putObjectTask_def Let_def split: sum.splits option.splits)


lemma putObjectTask_closes:
  "responsesClosed (putObjectTask cl config env bucket cur) =
   responsesGot (putObjectTask cl config env bucket cur)"
  by (simp add: putObjectTask_def Let_def split: sum.splits option.splits)



lemma uploadPartTask_sends_one:
  "\<exists>m. sends (uploadPartTask cl config env bucket objectKey objectUploadID cur) = [m]
       \<and> index m = cur \<and> PartNumber (objPart m) = 1"
  by (simp add: uploadPartTask_def Intn_def Let_def split: sum.splits option.splits)


lemma uploadPartTask_closes:
  "responsesClosed (uploadPartTask cl config env bucket objectKey objectUploadID cur) =
   responsesGot (uploadPartTask cl config env bucket objectKey objectUploadID cur)"
  by (simp add: uploadPartTask_def Intn_def Let_def split: sum.splits option.splits)

lemma uploadPartTask_success:
  assumes one: "sends (uploadPartTask cl config env bucket objectKey objectUploadID cur) = [m]"
      and ok: "perr m = None"
  shows "\<exists>data req res.
           newUploadPartReq cl config (Name bucket) objectKey objectUploadID 1 data = Inr req
         \<and> execRequest env ''PUT'' req = Inr res
         \<and> uploadPartVerify cl res 200 = None
         \<and> uploadPartTask cl config env bucket objectKey objectUploadID cur =
             [GotResponse res, Send m, CloseResponse res]
         \<and> index m = cur
         \<and> PartNumber (objPart m) = 1
         \<and> ETag (objPart m) =
             TrimSuffix (TrimPrefix (headerGet (Header res) ''ETag'') [CHR 0x22]) [CHR 0x22]"
  using assms
  apply (auto simp: uploadPartTask_def Intn_def Let_def StatusOK_def
      split: sum.splits option.splits if_splits)
  by blast


lemma uploadPartTask_example:
  "sends (uploadPartTask exampleCollab exampleConfig uploadEnv exampleBucket k u i) = [partOf i ''ab'']"
  by (simp add: uploadPartTask_def Intn_def uploadEnv_def exampleEnv_def newUploadPartReq_def
      exampleCollab_def uploadPartVerify_def verifyBodyUploadPart_def verifyStatusUploadPart_def
      verifyHeaderUploadPart_def emptyOK_def StatusOK_def partOf_def Let_def headerGet_def
      headerSet_def canonical_keys TrimPrefix_def TrimSuffix_def)


text \<open>
  mainPutObject returns true exactly when every task sent nil, whatever the order in
  which the results arrive.
\<close>

lemma mainPutObject_passes_iff:
  assumes vb: "validBuckets = b # bs"
      and dist: "distinct arrival" and all: "set arrival = {0..<length (objects reg)}"
  shows "(\<exists>reg' ch. mainPutObject cl config envs arrival validBuckets reg = Drained (reg', ch))
         \<longleftrightarrow> (\<forall>cur\<in>set arrival. sends (putObjectTask cl config (envs cur) b cur) = [None])"
proof -
  let ?task = "\<lambda>cur. if cur < length (objects reg)
                      then putObjectTask cl config (envs cur) b cur else []"
  let ?msg = "\<lambda>cur. hd (sends (putObjectTask cl config (envs cur) b cur))"
  have len: "length arrival = length (objects reg)"
    using distinct_card[OF dist] all by simp
  have one: "sends (putObjectTask cl config (envs cur) b cur) = [?msg cur]" for cur
    using putObjectTask_sends_one[of cl config "envs cur" b cur] by auto
  have msgs: "concat (map (\<lambda>cur. sends (?task cur)) arrival) = map ?msg arrival"
    using one all by (intro concat_singletons) simp
  have loop: "errChLoop (length (objects reg)) \<lparr>pending = map ?msg arrival, closed = False\<rparr> =
     (case dropWhile (\<lambda>m. m = None) (map ?msg arrival) of
        [] \<Rightarrow> Drained \<lparr>pending = [], closed = False\<rparr>
      | m # rest \<Rightarrow> ReturnedFalse m \<lparr>pending = rest, closed = False\<rparr>)"
    unfolding len[symmetric]
    using errChLoop_drains_all[of "map ?msg arrival" False] by (simp only: length_map)
  have "(\<exists>reg' ch. mainPutObject cl config envs arrival validBuckets reg = Drained (reg', ch))
        \<longleftrightarrow> dropWhile (\<lambda>m. m = None) (map ?msg arrival) = []"
  proof (cases "dropWhile (\<lambda>m. m = None) (map ?msg arrival)")
    case Nil
    show ?thesis unfolding mainPutObject_def vb Let_def msgs list.case loop Nil by simp
  next
    case (Cons m rest)
    show ?thesis unfolding mainPutObject_def vb Let_def msgs list.case loop Cons by simp
  qed
  also have "\<dots> \<longleftrightarrow> (\<forall>cur\<in>set arrival. ?msg cur = None)"
    by (auto simp: dropWhile_eq_Nil_conv)
  also have "\<dots> \<longleftrightarrow>
      (\<forall>cur\<in>set arrival. sends (putObjectTask cl config (envs cur) b cur) = [None])"
    using one by (metis list.inject)
  finally show ?thesis .
qed

subsection \<open>Parts and their slots\<close>

lemma mainUploadPart_drained:
  assumes run: "mainUploadPart cl config envs arrival validBuckets multipartObjects reg
                  = Drained (reg', ch')"
      and dist: "distinct arrival"
      and all: "set arrival = {0..<length multipartObjects}"
  shows "\<exists>bucket bs. validBuckets = bucket # bs
       \<and> length multipartObjects \<le> length (complMultipartUploads reg)
       \<and> length (complMultipartUploads reg') = length (complMultipartUploads reg)
       \<and> (\<forall>i < length multipartObjects. \<exists>ob m.
             multipartObjects ! i = Some ob
           \<and> sends (uploadPartTask cl config (envs i) bucket (Key ob) (UploadID ob) (int i)) = [m]
           \<and> perr m = None
           \<and> Parts (complMultipartUploads reg' ! i) =
               Parts (complMultipartUploads reg ! i) @ [completeOf m])
       \<and> (\<forall>j. length multipartObjects \<le> j \<and> j < length (complMultipartUploads reg) \<longrightarrow>
             Parts (complMultipartUploads reg' ! j) = Parts (complMultipartUploads reg ! j))"
proof -
  let ?N = "length multipartObjects"
  obtain b bs where vb: "validBuckets = b # bs"
    using run by (cases validBuckets) (simp_all add: mainUploadPart_def)
  have nn: "None \<notin> set multipartObjects"
    using run vb by (auto simp: mainUploadPart_def split: if_splits)
  define task where "task = (\<lambda>i. if i < length multipartObjects
                          then (case multipartObjects ! i of
                                  None \<Rightarrow> [Panic]
                                | Some object \<Rightarrow>
                                   uploadPartTask cl config (envs i) b (Key object)
                                     (UploadID object) (int i))
                          else [])"
  define msg where "msg = (\<lambda>i. hd (sends (task i)))"
  have one: "\<exists>ob. multipartObjects ! i = Some ob
             \<and> sends (uploadPartTask cl config (envs i) b (Key ob) (UploadID ob) (int i)) = [msg i]
             \<and> index (msg i) = int i"
    if "i < ?N" for i
  proof -
    from that nn obtain ob where ob: "multipartObjects ! i = Some ob"
      by (metis nth_mem not_None_eq)
    from uploadPartTask_sends_one[of cl config "envs i" b "Key ob" "UploadID ob" "int i"]
    show ?thesis using that by (auto simp: task_def msg_def ob)
  qed
  have one': "sends (task i) = [msg i]" if "i < ?N" for i
    using one[OF that] that by (auto simp: task_def)
  have msgs: "concat (map (\<lambda>i. sends (task i)) arrival) = map msg arrival"
    using one' all by (intro concat_singletons) simp
  have len: "length arrival = ?N"
    using distinct_card[OF dist] all by simp
  have loop: "uploadPartLoop (length (map msg arrival)) \<lparr>pending = map msg arrival, closed = False\<rparr>
                reg = Drained (reg', ch')"
    using run vb nn msgs len by (simp add: mainUploadPart_def task_def Let_def)
  from uploadPartLoop_drained[OF loop]
  have acc: "\<forall>m\<in>set (map msg arrival). perr m = None \<and> 0 \<le> index m \<and>
               index m < int (length (complMultipartUploads reg))"
    and reg': "reg' = foldl storePart reg (map msg arrival)"
    by blast+
  have len': "length (complMultipartUploads reg') = length (complMultipartUploads reg)"
    by (simp add: reg')
  have ok: "perr (msg i) = None \<and> i < length (complMultipartUploads reg)" if "i < ?N" for i
  proof -
    from that all have "msg i \<in> set (map msg arrival)" by auto
    with acc one[OF that] show ?thesis by auto
  qed
  have bound: "?N \<le> length (complMultipartUploads reg)"
  proof (cases "?N")
    case 0
    then show ?thesis by simp
  next
    case (Suc n)
    then have "n < ?N" by simp
    from ok[OF this] Suc show ?thesis by simp
  qed
  have nonneg: "\<forall>m\<in>set (map msg arrival). 0 \<le> index m" using acc by blast
  have idx: "\<forall>k\<in>set arrival. index (msg k) = int k"
  proof
    fix k assume "k \<in> set arrival"
    then have "k < ?N" using all by simp
    from one[OF this] show "index (msg k) = int k" by blast
  qed
  have filt: "filter (\<lambda>m. index m = int j) (map msg arrival) = map msg (filter (\<lambda>k. k = j) arrival)"
    for j using idx by (induction arrival) auto
  have slot: "Parts (complMultipartUploads reg' ! i) =
               Parts (complMultipartUploads reg ! i) @ [completeOf (msg i)]"
    if i: "i < ?N" for i
  proof -
    have "filter (\<lambda>k. k = i) arrival = [i]"
      using dist i all by (intro filter_eq_distinct) simp_all
    with filt[of i] have f: "filter (\<lambda>m. index m = int i) (map msg arrival) = [msg i]" by simp
    from foldl_storePart_Parts[OF _ nonneg, of i reg] ok[OF i] f show ?thesis
      by (simp add: reg')
  qed
  have rest: "Parts (complMultipartUploads reg' ! j) = Parts (complMultipartUploads reg ! j)"
    if j: "?N \<le> j" "j < length (complMultipartUploads reg)" for j
  proof -
    have "filter (\<lambda>k. k = j) arrival = []"
      using all j by (auto simp: filter_empty_conv)
    with filt[of j] have f: "filter (\<lambda>m. index m = int j) (map msg arrival) = []" by simp
    from foldl_storePart_Parts[OF j(2) nonneg] f show ?thesis by (simp add: reg')
  qed
  have each: "\<exists>ob m. multipartObjects ! i = Some ob
           \<and> sends (uploadPartTask cl config (envs i) b (Key ob) (UploadID ob) (int i)) = [m]
           \<and> perr m = None
           \<and> Parts (complMultipartUploads reg' ! i) =
               Parts (complMultipartUploads reg ! i) @ [completeOf m]"
    if i: "i < ?N" for i
    using one[OF i] ok[OF i] slot[OF i] by blast
  show ?thesis using vb bound len' each rest by blast
qed

lemma mainUploadPart_origin:
  assumes run: "mainUploadPart cl config envs arrival validBuckets multipartObjects reg
                  = Drained (reg', ch')"
      and dist: "distinct arrival"
      and all: "set arrival = {0..<length multipartObjects}"
  shows "\<exists>bucket bs. validBuckets = bucket # bs
       \<and> (\<forall>i < length multipartObjects. \<exists>ob data req res m.
             multipartObjects ! i = Some ob
           \<and> newUploadPartReq cl config (Name bucket) (Key ob) (UploadID ob) 1 data = Inr req
           \<and> objectName req = Key ob
           \<and> queryValues req ''uploadId'' = Some [UploadID ob]
           \<and> queryValues req ''partNumber'' = Some [''1'']
           \<and> execRequest (envs i) ''PUT'' req = Inr res
           \<and> uploadPartVerify cl res 200 = None
           \<and> uploadPartTask cl config (envs i) bucket (Key ob) (UploadID ob) (int i) =
               [GotResponse res, Send m, CloseResponse res]
           \<and> Parts (complMultipartUploads reg' ! i) =
               Parts (complMultipartUploads reg ! i) @
                 [\<lparr>cpETag = TrimSuffix (TrimPrefix (headerGet (Header res) ''ETag'') [CHR 0x22])
                              [CHR 0x22],
                   cpPartNumber = 1\<rparr>])"
proof -
  from mainUploadPart_drained[OF run dist all] obtain bucket bs where
    vb: "validBuckets = bucket # bs"
    and each: "\<forall>i < length multipartObjects. \<exists>ob m.
             multipartObjects ! i = Some ob
           \<and> sends (uploadPartTask cl config (envs i) bucket (Key ob) (UploadID ob) (int i)) = [m]
           \<and> perr m = None
           \<and> Parts (complMultipartUploads reg' ! i) =
               Parts (complMultipartUploads reg ! i) @ [completeOf m]"
    by blast
  have "\<exists>ob data req res m.
             multipartObjects ! i = Some ob
           \<and> newUploadPartReq cl config (Name bucket) (Key ob) (UploadID ob) 1 data = Inr req
           \<and> objectName req = Key ob
           \<and> queryValues req ''uploadId'' = Some [UploadID ob]
           \<and> queryValues req ''partNumber'' = Some [''1'']
           \<and> execRequest (envs i) ''PUT'' req = Inr res
           \<and> uploadPartVerify cl res 200 = None
           \<and> uploadPartTask cl config (envs i) bucket (Key ob) (UploadID ob) (int i) =
               [GotResponse res, Send m, CloseResponse res]
           \<and> Parts (complMultipartUploads reg' ! i) =
               Parts (complMultipartUploads reg ! i) @
                 [\<lparr>cpETag = TrimSuffix (TrimPrefix (headerGet (Header res) ''ETag'') [CHR 0x22])
                              [CHR 0x22],
                   cpPartNumber = 1\<rparr>]"
    if i: "i < length multipartObjects" for i
  proof -
    from each i obtain ob m where
      ob: "multipartObjects ! i = Some ob"
      and s: "sends (uploadPartTask cl config (envs i) bucket (Key ob) (UploadID ob) (int i)) = [m]"
      and ok: "perr m = None"
      and p: "Parts (complMultipartUploads reg' ! i) =
               Parts (complMultipartUploads reg ! i) @ [completeOf m]"
      by blast
    from uploadPartTask_success[OF s ok] obtain data req res where
      r: "newUploadPartReq cl config (Name bucket) (Key ob) (UploadID ob) 1 data = Inr req"
      and e: "execRequest (envs i) ''PUT'' req = Inr res"
      and v: "uploadPartVerify cl res 200 = None"
      and t: "uploadPartTask cl config (envs i) bucket (Key ob) (UploadID ob) (int i) =
               [GotResponse res, Send m, CloseResponse res]"
      and pn: "PartNumber (objPart m) = 1"
      and et: "ETag (objPart m) =
             TrimSuffix (TrimPrefix (headerGet (Header res) ''ETag'') [CHR 0x22]) [CHR 0x22]"
      by blast
    from newUploadPartReq_headers[OF r] newUploadPartReq_target[OF r]
    have q: "objectName req = Key ob" "queryValues req ''uploadId'' = Some [UploadID ob]"
            "queryValues req ''partNumber'' = Some [''1'']"
      by (simp_all add: Itoa_1)
    have c: "completeOf m = \<lparr>cpETag = TrimSuffix (TrimPrefix (headerGet (Header res) ''ETag'')
                                 [CHR 0x22]) [CHR 0x22], cpPartNumber = 1\<rparr>"
      by (simp add: completeOf_def pn et)
    show ?thesis using ob r q e v t p unfolding c by blast
  qed
  then show ?thesis using vb by blast
qed

lemma mainUploadPart_example:
  "mainUploadPart exampleCollab exampleConfig (\<lambda>i. uploadEnv) [1, 0] [exampleBucket]
       multipartExample initialRegistry =
       Drained (\<lparr>objects = replicate 50 None,
                 objectParts = [objPart (partOf 1 ''ab''), objPart (partOf 0 ''ab'')],
                 complMultipartUploads = [\<lparr>Parts = [\<lparr>cpETag = ''ab'', cpPartNumber = 1\<rparr>]\<rparr>,
                                          \<lparr>Parts = [\<lparr>cpETag = ''ab'', cpPartNumber = 1\<rparr>]\<rparr>]\<rparr>,
                \<lparr>pending = [], closed = False\<rparr>)"
  by (simp add: mainUploadPart_def multipartExample_def uploadPartTask_example numeral_2_eq_2
      receive_def initialRegistry_def partOf_def Let_def)

text \<open>
  C6: every result an upload-part task sends carries the index the task was launched
  with. For every result the aggregation loop receives (without error, index within the
  list) it appends the part to the slot with the result's index, whatever the order of
  arrival. And in a run of mainUploadPart that returns true, under any order of
  arrival: for every position i of the multipart objects, the task launched for the
  object at i built its request for that object's key and upload ID, the executor
  answered it, and the slot i gained exactly the part whose ETag is the one of that
  answer. So each part is with the object it was uploaded for.
\<close>

theorem C6_part_lands_in_tagged_slot:
  "(\<forall>m\<in>set (sends (uploadPartTask cl config env bucket objectKey objectUploadID cur)).
      index m = cur)
   \<and> ((\<forall>m\<in>set msgs. perr m = None \<and> 0 \<le> index m \<and>
                       index m < int (length (complMultipartUploads reg))) \<longrightarrow>
       (\<exists>reg'.
            uploadPartLoop (length msgs) \<lparr>pending = msgs, closed = c\<rparr> reg =
              Drained (reg', \<lparr>pending = [], closed = c\<rparr>)
          \<and> length (complMultipartUploads reg') = length (complMultipartUploads reg)
          \<and> (\<forall>j < length (complMultipartUploads reg).
                Parts (complMultipartUploads reg' ! j) =
                  Parts (complMultipartUploads reg ! j) @
                    map (\<lambda>m. \<lparr>cpETag = ETag (objPart m), cpPartNumber = PartNumber (objPart m)\<rparr>)
                      (filter (\<lambda>m. index m = int j) msgs))
          \<and> (distinct (map index msgs) \<longrightarrow>
               (\<forall>m\<in>set msgs.
                  Parts (complMultipartUploads reg' ! nat (index m)) =
                    Parts (complMultipartUploads reg ! nat (index m)) @
                      [\<lparr>cpETag = ETag (objPart m), cpPartNumber = PartNumber (objPart m)\<rparr>]))))
   \<and> (mainUploadPart cl config envs arrival validBuckets multipartObjects reg
         = Drained (reg1, ch1)
       \<and> distinct arrival \<and> set arrival = {0..<length multipartObjects} \<longrightarrow>
       (\<exists>b bs. validBuckets = b # bs
         \<and> (\<forall>i < length multipartObjects. \<exists>ob data req res m.
               multipartObjects ! i = Some ob
             \<and> newUploadPartReq cl config (Name b) (Key ob) (UploadID ob) 1 data = Inr req
             \<and> objectName req = Key ob
             \<and> queryValues req ''uploadId'' = Some [UploadID ob]
             \<and> queryValues req ''partNumber'' = Some [''1'']
             \<and> execRequest (envs i) ''PUT'' req = Inr res
             \<and> uploadPartVerify cl res 200 = None
             \<and> uploadPartTask cl config (envs i) b (Key ob) (UploadID ob) (int i) =
                 [GotResponse res, Send m, CloseResponse res]
             \<and> Parts (complMultipartUploads reg1 ! i) =
                 Parts (complMultipartUploads reg ! i) @
                   [\<lparr>cpETag = TrimSuffix (TrimPrefix (headerGet (Header res) ''ETag'') [CHR 0x22])
                                [CHR 0x22],
                     cpPartNumber = 1\<rparr>])))"
proof (intro conjI impI)
  show "\<forall>m\<in>set (sends (uploadPartTask cl config env bucket objectKey objectUploadID cur)).
            index m = cur"
    using uploadPartTask_sends_one[of cl config env bucket objectKey objectUploadID cur] by auto
next
  assume "\<forall>m\<in>set msgs. perr m = None \<and> 0 \<le> index m \<and>
                       index m < int (length (complMultipartUploads reg))"
  then show "\<exists>reg'.
            uploadPartLoop (length msgs) \<lparr>pending = msgs, closed = c\<rparr> reg =
              Drained (reg', \<lparr>pending = [], closed = c\<rparr>)
          \<and> length (complMultipartUploads reg') = length (complMultipartUploads reg)
          \<and> (\<forall>j < length (complMultipartUploads reg).
                Parts (complMultipartUploads reg' ! j) =
                  Parts (complMultipartUploads reg ! j) @
                    map (\<lambda>m. \<lparr>cpETag = ETag (objPart m), cpPartNumber = PartNumber (objPart m)\<rparr>)
                      (filter (\<lambda>m. index m = int j) msgs))
          \<and> (distinct (map index msgs) \<longrightarrow>
               (\<forall>m\<in>set msgs.
                  Parts (complMultipartUploads reg' ! nat (index m)) =
                    Parts (complMultipartUploads reg ! nat (index m)) @
                      [\<lparr>cpETag = ETag (objPart m), cpPartNumber = PartNumber (objPart m)\<rparr>]))"
    by (rule uploadPartLoop_slots)
next
  assume a: "mainUploadPart cl config envs arrival validBuckets multipartObjects reg
         = Drained (reg1, ch1)
       \<and> distinct arrival \<and> set arrival = {0..<length multipartObjects}"
  then have run: "mainUploadPart cl config envs arrival validBuckets multipartObjects reg
         = Drained (reg1, ch1)" and d: "distinct arrival"
    and s: "set arrival = {0..<length multipartObjects}" by blast+
  show "\<exists>b bs. validBuckets = b # bs
         \<and> (\<forall>i < length multipartObjects. \<exists>ob data req res m.
               multipartObjects ! i = Some ob
             \<and> newUploadPartReq cl config (Name b) (Key ob) (UploadID ob) 1 data = Inr req
             \<and> objectName req = Key ob
             \<and> queryValues req ''uploadId'' = Some [UploadID ob]
             \<and> queryValues req ''partNumber'' = Some [''1'']
             \<and> execRequest (envs i) ''PUT'' req = Inr res
             \<and> uploadPartVerify cl res 200 = None
             \<and> uploadPartTask cl config (envs i) b (Key ob) (UploadID ob) (int i) =
                 [GotResponse res, Send m, CloseResponse res]
             \<and> Parts (complMultipartUploads reg1 ! i) =
                 Parts (complMultipartUploads reg ! i) @
                   [\<lparr>cpETag = TrimSuffix (TrimPrefix (headerGet (Header res) ''ETag'') [CHR 0x22])
                                [CHR 0x22],
                     cpPartNumber = 1\<rparr>])"
    by (rule mainUploadPart_origin[OF run d s])
qed

text \<open>
  C6 at two results that arrive in the reverse of their launch order, and at a run of
  mainUploadPart with two multipart objects whose results arrive in reverse order.
\<close>

theorem C6_part_lands_in_tagged_slot_witness:
  "(\<exists>reg'. uploadPartLoop 2 \<lparr>pending = [partOf 1 ''b'', partOf 0 ''a''], closed = False\<rparr> initialRegistry
            = Drained (reg', \<lparr>pending = [], closed = False\<rparr>)
        \<and> Parts (complMultipartUploads reg' ! 0) = [\<lparr>cpETag = ''a'', cpPartNumber = 1\<rparr>]
        \<and> Parts (complMultipartUploads reg' ! 1) = [\<lparr>cpETag = ''b'', cpPartNumber = 1\<rparr>])
   \<and> (\<exists>reg1 ch1. mainUploadPart exampleCollab exampleConfig (\<lambda>i. uploadEnv) [1, 0] [exampleBucket]
          multipartExample initialRegistry = Drained (reg1, ch1)
        \<and> (\<forall>i < length multipartExample. \<exists>ob req res.
              multipartExample ! i = Some ob
            \<and> objectName req = Key ob
            \<and> execRequest uploadEnv ''PUT'' req = Inr res
            \<and> Parts (complMultipartUploads reg1 ! i) =
                Parts (complMultipartUploads initialRegistry ! i) @
                  [\<lparr>cpETag = TrimSuffix (TrimPrefix (headerGet (Header res) ''ETag'') [CHR 0x22])
                               [CHR 0x22],
                    cpPartNumber = 1\<rparr>]))"
proof -
  have h: "\<forall>m\<in>set [partOf 1 ''b'', partOf 0 ''a'']. perr m = None \<and> 0 \<le> index m \<and>
             index m < int (length (complMultipartUploads initialRegistry))"
    by (simp add: partOf_def initialRegistry_def)
  note inst = C6_part_lands_in_tagged_slot[of exampleCollab exampleConfig exampleEnv exampleBucket
      "''k''" "''u''" 0 "[partOf 1 ''b'', partOf 0 ''a'']" initialRegistry False
      "\<lambda>i. uploadEnv" "[1, 0]" "[exampleBucket]" multipartExample]
  from inst[THEN conjunct2, THEN conjunct1, THEN mp, OF h]
  obtain reg' where
    r: "uploadPartLoop (length [partOf 1 ''b'', partOf 0 ''a''])
          \<lparr>pending = [partOf 1 ''b'', partOf 0 ''a''], closed = False\<rparr> initialRegistry
            = Drained (reg', \<lparr>pending = [], closed = False\<rparr>)"
    and s: "\<forall>j < length (complMultipartUploads initialRegistry).
                Parts (complMultipartUploads reg' ! j) =
                  Parts (complMultipartUploads initialRegistry ! j) @
                    map (\<lambda>m. \<lparr>cpETag = ETag (objPart m), cpPartNumber = PartNumber (objPart m)\<rparr>)
                      (filter (\<lambda>m. index m = int j) [partOf 1 ''b'', partOf 0 ''a''])"
    by blast
  have "Parts (complMultipartUploads reg' ! 0) = [\<lparr>cpETag = ''a'', cpPartNumber = 1\<rparr>]"
    using s[rule_format, of 0] by (simp add: initialRegistry_def partOf_def)
  moreover have "Parts (complMultipartUploads reg' ! 1) = [\<lparr>cpETag = ''b'', cpPartNumber = 1\<rparr>]"
    using s[rule_format, of 1] by (simp add: initialRegistry_def partOf_def)
  ultimately have first: "\<exists>reg'. uploadPartLoop 2
            \<lparr>pending = [partOf 1 ''b'', partOf 0 ''a''], closed = False\<rparr> initialRegistry
            = Drained (reg', \<lparr>pending = [], closed = False\<rparr>)
        \<and> Parts (complMultipartUploads reg' ! 0) = [\<lparr>cpETag = ''a'', cpPartNumber = 1\<rparr>]
        \<and> Parts (complMultipartUploads reg' ! 1) = [\<lparr>cpETag = ''b'', cpPartNumber = 1\<rparr>]"
    using r by (auto simp: numeral_2_eq_2 simp del: uploadPartLoop.simps)
  have d: "distinct [1, 0::nat]" by simp
  have a: "set [1, 0::nat] = {0..<length multipartExample}"
    by (auto simp: multipartExample_def)
  from inst[THEN conjunct2, THEN conjunct2, THEN mp,
      OF conjI[OF mainUploadPart_example conjI[OF d a]]]
  have "\<forall>i < length multipartExample. \<exists>ob req res.
              multipartExample ! i = Some ob
            \<and> objectName req = Key ob
            \<and> execRequest uploadEnv ''PUT'' req = Inr res
            \<and> Parts (complMultipartUploads \<lparr>objects = replicate 50 None,
                 objectParts = [objPart (partOf 1 ''ab''), objPart (partOf 0 ''ab'')],
                 complMultipartUploads = [\<lparr>Parts = [\<lparr>cpETag = ''ab'', cpPartNumber = 1\<rparr>]\<rparr>,
                                          \<lparr>Parts = [\<lparr>cpETag = ''ab'', cpPartNumber = 1\<rparr>]\<rparr>]\<rparr> ! i) =
                Parts (complMultipartUploads initialRegistry ! i) @
                  [\<lparr>cpETag = TrimSuffix (TrimPrefix (headerGet (Header res) ''ETag'') [CHR 0x22])
                               [CHR 0x22],
                    cpPartNumber = 1\<rparr>]"
    by blast
  then have second: "\<exists>reg1 ch1. mainUploadPart exampleCollab exampleConfig (\<lambda>i. uploadEnv) [1, 0]
          [exampleBucket] multipartExample initialRegistry = Drained (reg1, ch1)
        \<and> (\<forall>i < length multipartExample. \<exists>ob req res.
              multipartExample ! i = Some ob
            \<and> objectName req = Key ob
            \<and> execRequest uploadEnv ''PUT'' req = Inr res
            \<and> Parts (complMultipartUploads reg1 ! i) =
                Parts (complMultipartUploads initialRegistry ! i) @
                  [\<lparr>cpETag = TrimSuffix (TrimPrefix (headerGet (Header res) ''ETag'') [CHR 0x22])
                               [CHR 0x22],
                    cpPartNumber = 1\<rparr>])"
    using mainUploadPart_example by blast
  show ?thesis using first second by (rule conjI)
qed



subsection \<open>Who writes the registry\<close>




subsection \<open>The sequential If-Match test\<close>

lemma NewGetObjectIfMatchReq_result:
  assumes "NewGetObjectIfMatchReq cl config bucket object etag m = Some (Inr p, m')"
  shows "\<exists>rq hdr u. makeTargetURL cl (Endpoint config) bucket object (Region config) = Inr u
           \<and> requestAt m' p = Some (rq, hdr)
           \<and> hdr ''If-Match'' = Some [etag] \<and> URL rq = Some u
           \<and> GetObjectIfMatchReq m' = p \<and> p = length (requests m)
           \<and> GetObjectIfMatchReq m < length (requests m)
           \<and> length (requests m') = Suc (length (requests m))
           \<and> length (headerMaps m') = length (headerMaps m)"
  using assms
  by (auto simp: NewGetObjectIfMatchReq_def SignV4_def requestAt_def deref_Some Let_def nth_append
      split: sum.splits option.splits if_splits)

text \<open>
  C8: the response to the GET whose If-Match is the invalid ETag passes verification
  exactly when the standard headers pass, the body decodes to an error document whose
  code is PreconditionFailed and the status line is that of a 412; a document with any
  other code gives an error (the header error if the headers fail first, else the
  unexpected-code error). A run of the test that returns no error has sent its second
  request with If-Match 1234567890 and got such a 412 for it.
\<close>

theorem C8_if_match_failure_verified:
  "(GetObjectIfMatchVerify cl badRes [] ''412 Precondition Failed'' True = None \<longleftrightarrow>
      verifyStandardHeadersRes cl badRes = None
      \<and> (\<exists>raw errBody. Body badRes = Inr raw \<and> xmlDecode cl raw = Inr errBody
            \<and> Code errBody = ''PreconditionFailed'')
      \<and> Status badRes = ''412 Precondition Failed'')
   \<and> (Body badRes = Inr raw \<and> xmlDecode cl raw = Inr errBody
        \<and> Code errBody \<noteq> ''PreconditionFailed'' \<longrightarrow>
        GetObjectIfMatchVerify cl badRes [] ''412 Precondition Failed'' True =
          (case verifyStandardHeadersRes cl badRes of
             Some e \<Rightarrow> Some e
           | None \<Rightarrow> Some (UnexpectedErrorResponse (Code errBody))))
   \<and> (mainGetObjectIfMatch cl env config m = Some (None, tr, m') \<longrightarrow>
        (\<exists>res rq hdr bad.
            tr = [GotResponse res, GotResponse bad]
          \<and> hdr ''If-Match'' = Some [''1234567890'']
          \<and> ExecRequest env rq hdr = Inr bad
          \<and> Status bad = ''412 Precondition Failed''
          \<and> (\<exists>raw errBody. Body bad = Inr raw \<and> xmlDecode cl raw = Inr errBody
                \<and> Code errBody = ''PreconditionFailed'')))"
proof (intro conjI impI)
  show v: "\<And>badRes. GetObjectIfMatchVerify cl badRes [] ''412 Precondition Failed'' True = None \<longleftrightarrow>
      verifyStandardHeadersRes cl badRes = None
      \<and> (\<exists>raw errBody. Body badRes = Inr raw \<and> xmlDecode cl raw = Inr errBody
            \<and> Code errBody = ''PreconditionFailed'')
      \<and> Status badRes = ''412 Precondition Failed''"
    by (auto simp: GetObjectIfMatchVerify_def VerifyHeaderGetObjectIfMatch_def
        VerifyBodyGetObjectIfMatch_def VerifyStatusGetObjectIfMatch_def
        split: option.splits sum.splits if_splits)
  show "GetObjectIfMatchVerify cl badRes [] ''412 Precondition Failed'' True =
          (case verifyStandardHeadersRes cl badRes of
             Some e \<Rightarrow> Some e
           | None \<Rightarrow> Some (UnexpectedErrorResponse (Code errBody)))"
    if "Body badRes = Inr raw \<and> xmlDecode cl raw = Inr errBody
        \<and> Code errBody \<noteq> ''PreconditionFailed''"
    using that
    by (auto simp: GetObjectIfMatchVerify_def VerifyHeaderGetObjectIfMatch_def
        VerifyBodyGetObjectIfMatch_def split: option.splits)
  assume run: "mainGetObjectIfMatch cl env config m = Some (None, tr, m')"
  obtain bucket object etag buf ierr where
    init: "GetObjectIfMatchInit env config = (bucket, object, etag, buf, ierr)"
    by (metis prod_cases5)
  have cl_ne: "\<And>e. (cleanUpAndReturn env config bucket object e = None) = False"
    by (simp add: cleanUpAndReturn_def split: option.splits)
  from run init have "\<exists>m1 m2 badReq brq bhdr bad res.
    NewGetObjectIfMatchReq cl config bucket object ''1234567890'' m1 = Some (Inr badReq, m2)
    \<and> requestAt m2 badReq = Some (brq, bhdr)
    \<and> ExecRequest env brq bhdr = Inr bad
    \<and> GetObjectIfMatchVerify cl bad [] ''412 Precondition Failed'' True = None
    \<and> tr = [GotResponse res, GotResponse bad]"
    apply (auto simp: mainGetObjectIfMatch_def cl_ne split: option.splits sum.splits prod.splits)
    by blast
  then obtain m1 m2 badReq brq bhdr bad res where
    "NewGetObjectIfMatchReq cl config bucket object ''1234567890'' m1 = Some (Inr badReq, m2)"
    "requestAt m2 badReq = Some (brq, bhdr)"
    "ExecRequest env brq bhdr = Inr bad"
    "GetObjectIfMatchVerify cl bad [] ''412 Precondition Failed'' True = None"
    "tr = [GotResponse res, GotResponse bad]"
    by blast
  moreover from NewGetObjectIfMatchReq_result[OF this(1)] this(2)
  have "bhdr ''If-Match'' = Some [''1234567890'']" by auto
  ultimately show "\<exists>res rq hdr bad.
            tr = [GotResponse res, GotResponse bad]
          \<and> hdr ''If-Match'' = Some [''1234567890'']
          \<and> ExecRequest env rq hdr = Inr bad
          \<and> Status bad = ''412 Precondition Failed''
          \<and> (\<exists>raw errBody. Body bad = Inr raw \<and> xmlDecode cl raw = Inr errBody
                \<and> Code errBody = ''PreconditionFailed'')"
    using v[of bad] by blast
qed

text \<open>C8 at a 412 with the right code, a 412 with another code, and a whole run.\<close>

theorem C8_if_match_failure_verified_witness:
  "GetObjectIfMatchVerify exampleCollab preconditionFailed [] ''412 Precondition Failed'' True = None
   \<and> GetObjectIfMatchVerify exampleCollab noSuchKey [] ''412 Precondition Failed'' True =
       Some (UnexpectedErrorResponse ''NoSuchKey'')
   \<and> (\<exists>tr m'. mainGetObjectIfMatch exampleCollab exampleIfMatchEnv exampleConfig
                  (initialMemory exampleCollab) = Some (None, tr, m')
        \<and> (\<exists>res bad. tr = [GotResponse res, GotResponse bad]
              \<and> Status bad = ''412 Precondition Failed''))"
proof -
  have "\<exists>m'. mainGetObjectIfMatch exampleCollab exampleIfMatchEnv exampleConfig
                  (initialMemory exampleCollab) =
             Some (None, [GotResponse fullOK, GotResponse preconditionFailed], m')"
    by (simp add: mainGetObjectIfMatch_def GetObjectIfMatchInit_def exampleIfMatchEnv_def
      NewGetObjectIfMatchReq_def SignV4_def deref_def requestAt_def initialMemory_def exampleCollab_def
      exampleConfig_def GetObjectIfMatchVerify_def VerifyHeaderGetObjectIfMatch_def
      VerifyBodyGetObjectIfMatch_def VerifyStatusGetObjectIfMatch_def fullOK_def preconditionFailed_def
      Let_def)
  then obtain M where run: "mainGetObjectIfMatch exampleCollab exampleIfMatchEnv exampleConfig
                  (initialMemory exampleCollab) =
             Some (None, [GotResponse fullOK, GotResponse preconditionFailed], M)" ..
  have ok: "verifyStandardHeadersRes exampleCollab preconditionFailed = None
      \<and> (\<exists>raw errBody. Body preconditionFailed = Inr raw \<and> xmlDecode exampleCollab raw = Inr errBody
            \<and> Code errBody = ''PreconditionFailed'')
      \<and> Status preconditionFailed = ''412 Precondition Failed''"
    by (simp add: exampleCollab_def preconditionFailed_def)
  have other: "Body noSuchKey = Inr [7] \<and> xmlDecode exampleCollab [7] = Inr \<lparr>Code = ''NoSuchKey'', Message = []\<rparr>
        \<and> Code \<lparr>Code = ''NoSuchKey'', Message = []\<rparr> \<noteq> ''PreconditionFailed''"
    by (simp add: exampleCollab_def noSuchKey_def)
  have hdr: "verifyStandardHeadersRes exampleCollab noSuchKey = None"
    by (simp add: exampleCollab_def)
  note first = C8_if_match_failure_verified[of exampleCollab preconditionFailed "[7]"
      "\<lparr>Code = ''NoSuchKey'', Message = []\<rparr>" exampleIfMatchEnv exampleConfig
      "initialMemory exampleCollab" "[GotResponse fullOK, GotResponse preconditionFailed]" M]
  note second = C8_if_match_failure_verified[of exampleCollab noSuchKey "[7]"
      "\<lparr>Code = ''NoSuchKey'', Message = []\<rparr>" exampleIfMatchEnv exampleConfig
      "initialMemory exampleCollab" "[]" M]
  have a: "GetObjectIfMatchVerify exampleCollab preconditionFailed [] ''412 Precondition Failed'' True = None"
    using first[THEN conjunct1] ok by (rule iffD2)
  have b: "GetObjectIfMatchVerify exampleCollab noSuchKey [] ''412 Precondition Failed'' True =
       Some (UnexpectedErrorResponse ''NoSuchKey'')"
    using second[THEN conjunct2, THEN conjunct1, rule_format, OF other] hdr by simp
  from first[THEN conjunct2, THEN conjunct2, rule_format, OF run]
  obtain res bad where "[GotResponse fullOK, GotResponse preconditionFailed] =
       [GotResponse res, GotResponse bad]" "Status bad = ''412 Precondition Failed''"
    by blast
  then have c: "\<exists>res bad. [GotResponse fullOK, GotResponse preconditionFailed :: unit event] =
       [GotResponse res, GotResponse bad] \<and> Status bad = ''412 Precondition Failed''"
    by blast
  show ?thesis
    apply (intro conjI)
      apply (rule a)
     apply (rule b)
    apply (rule exI[of _ "[GotResponse fullOK, GotResponse preconditionFailed]"])
    apply (rule exI[of _ M])
    apply (rule conjI)
     apply (rule run)
    apply (rule c)
    done
qed

lemma mainGetObjectIfMatch_never_closes:
  assumes "mainGetObjectIfMatch cl env config m = Some (e, tr, m')"
  shows "responsesClosed tr = []"
proof -
  obtain bucket object etag buf ierr where
    init: "GetObjectIfMatchInit env config = (bucket, object, etag, buf, ierr)"
    by (metis prod_cases5)
  from assms init show ?thesis
    by (auto simp: mainGetObjectIfMatch_def split: option.splits sum.splits prod.splits)
qed

text \<open>
  C4, the code at the failing input: a run of the sequential If-Match test against a
  server that answers both requests as it should. The test obtains two responses from
  the executor and returns without having closed either.
\<close>

theorem C4_if_match_test_leaves_responses_open:
  "leakReport (mainGetObjectIfMatch exampleCollab exampleIfMatchEnv exampleConfig
                 (initialMemory exampleCollab)) =
     Some (None, [fullOK, preconditionFailed], [])"
  by (simp add: leakReport_def mainGetObjectIfMatch_def GetObjectIfMatchInit_def exampleIfMatchEnv_def
      NewGetObjectIfMatchReq_def SignV4_def deref_def requestAt_def initialMemory_def exampleCollab_def
      exampleConfig_def GetObjectIfMatchVerify_def VerifyHeaderGetObjectIfMatch_def
      VerifyBodyGetObjectIfMatch_def VerifyStatusGetObjectIfMatch_def fullOK_def preconditionFailed_def
      responsesGot_def responsesClosed_def Let_def)

subsection \<open>Request construction\<close>

text \<open>
  C5, the code at the failing input: the request newUploadPartReq builds for a
  three-byte part has the payload-hash header and no User-Agent header, where the
  request newPutObjectReq builds for the same bytes has one.
\<close>

theorem C5_upload_part_request_lacks_user_agent:
  "built (newUploadPartReq exampleCollab exampleConfig ''bucket'' ''object'' ''upload'' 1 [1, 2, 3])
   \<and> headerOf (newUploadPartReq exampleCollab exampleConfig ''bucket'' ''object'' ''upload'' 1 [1, 2, 3])
        ''User-Agent'' = None
   \<and> headerOf (newPutObjectReq exampleCollab exampleConfig ''bucket'' ''object'' [1, 2, 3])
        ''User-Agent'' = Some [''s3verify'']"
  by code_simp

lemma newPutObjectReq_closed_form:
  "newPutObjectReq cl config bucket object objectData =
     (case computeHash cl objectData of
        Inl e \<Rightarrow> Inl e
      | Inr (md5Sum, sha256Sum, len) \<Rightarrow>
          Inr \<lparr>bucketName = bucket, objectName = object, queryValues = Map.empty,
               customHeader = [''Content-Md5'' \<mapsto> [base64Encode cl md5Sum],
                               ''X-Amz-Content-Sha256'' \<mapsto> [hexEncode cl sha256Sum],
                               ''User-Agent'' \<mapsto> [appUserAgent cl]],
               contentLength = len, contentBody = Some objectData\<rparr>)"
  by (simp add: newPutObjectReq_def headerSet_def canonical_keys Let_def
      split: sum.splits prod.splits)

lemma headerSetAt_new:
  "headerSetAt (m\<lparr>headerMaps := hs @ [hdr]\<rparr>) (length hs) key v =
     m\<lparr>headerMaps := hs @ [headerSet hdr key v]\<rparr>"
  by (simp add: headerSetAt_def)

lemma newPutObjectReq_mem_fresh:
  "builtFresh m (newPutObjectReq_mem cl config bucket object objectData m)
   \<and> sameRequest (newPutObjectReq cl config bucket object objectData)
        (newPutObjectReq_mem cl config bucket object objectData m)"
  by (auto simp: builtFresh_def sameRequest_def newPutObjectReq_mem_def newPutObjectReq_def
      newHeaderMap_def headerSetAt_new requestValue_def deref_def Let_def
      split: sum.splits prod.splits)

lemma newUploadPartReq_mem_fresh:
  "builtFresh m (newUploadPartReq_mem cl config bucket object uploadID partNumber partData m)
   \<and> sameRequest (newUploadPartReq cl config bucket object uploadID partNumber partData)
        (newUploadPartReq_mem cl config bucket object uploadID partNumber partData m)"
  by (auto simp: builtFresh_def sameRequest_def newUploadPartReq_mem_def newUploadPartReq_def
      newHeaderMap_def headerSetAt_new requestValue_def deref_def Let_def
      split: sum.splits prod.splits)

lemma newGetObjectRangeReq_mem_fresh:
  "builtFresh m (newGetObjectRangeReq_mem cl config bucket object startRange endRange m)
   \<and> sameRequest (newGetObjectRangeReq cl config bucket object startRange endRange)
        (newGetObjectRangeReq_mem cl config bucket object startRange endRange m)"
  by (auto simp: builtFresh_def sameRequest_def newGetObjectRangeReq_mem_def newGetObjectRangeReq_def
      newHeaderMap_def headerSetAt_new requestValue_def deref_def Let_def
      split: sum.splits prod.splits)

lemma newRemoveObjectReq_mem_fresh:
  "builtFresh m (newRemoveObjectReq_mem cl config bucket object m)
   \<and> sameRequest (newRemoveObjectReq cl config bucket object)
        (newRemoveObjectReq_mem cl config bucket object m)"
  by (auto simp: builtFresh_def sameRequest_def newRemoveObjectReq_mem_def newRemoveObjectReq_def
      newHeaderMap_def headerSetAt_new requestValue_def deref_def Let_def
      split: sum.splits prod.splits)

lemma newGetObjectIfNoneMatchReq_mem_fresh:
  "builtFresh m (newGetObjectIfNoneMatchReq_mem cl config bucket object etag m)
   \<and> sameRequest (newGetObjectIfNoneMatchReq cl config bucket object etag)
        (newGetObjectIfNoneMatchReq_mem cl config bucket object etag m)"
  by (auto simp: builtFresh_def sameRequest_def newGetObjectIfNoneMatchReq_mem_def newGetObjectIfNoneMatchReq_def
      newHeaderMap_def headerSetAt_new requestValue_def deref_def Let_def
      split: sum.splits prod.splits)

lemma newGetObjectIfModifiedSinceReq_mem_fresh:
  "builtFresh m (newGetObjectIfModifiedSinceReq_mem cl config bucket object lastModified m)
   \<and> sameRequest (newGetObjectIfModifiedSinceReq cl config bucket object lastModified)
        (newGetObjectIfModifiedSinceReq_mem cl config bucket object lastModified m)"
  by (auto simp: builtFresh_def sameRequest_def newGetObjectIfModifiedSinceReq_mem_def newGetObjectIfModifiedSinceReq_def
      newHeaderMap_def headerSetAt_new requestValue_def deref_def Let_def
      split: sum.splits prod.splits)

lemma fresh_builds_share_nothing:
  assumes first: "builtFresh m (Inr r1, m1)" and second: "builtFresh m1 (res2, m2)"
  shows "requestValue m2 r1 = requestValue m1 r1
       \<and> requestValue m1 r1 \<noteq> None
       \<and> (\<forall>r2. res2 = Inr r2 \<longrightarrow> refCustomHeader r2 \<noteq> refCustomHeader r1)"
proof -
  from first obtain h1 where h1: "refCustomHeader r1 = Some h1" "h1 < length (headerMaps m1)"
    by (auto simp: builtFresh_def)
  from second have tk: "take (length (headerMaps m1)) (headerMaps m2) = headerMaps m1"
    by (simp add: builtFresh_def)
  then have len: "length (headerMaps m1) \<le> length (headerMaps m2)"
    by (metis length_take min.cobounded1)
  have same: "headerMaps m2 ! h1 = headerMaps m1 ! h1"
    using h1(2) tk by (metis nth_take)
  have a: "requestValue m2 r1 = requestValue m1 r1"
    using h1 len same by (simp add: requestValue_def deref_def)
  have b: "requestValue m1 r1 \<noteq> None"
    using h1 by (simp add: requestValue_def deref_def)
  have c: "\<forall>r2. res2 = Inr r2 \<longrightarrow> refCustomHeader r2 \<noteq> refCustomHeader r1"
    using second h1 by (auto simp: builtFresh_def)
  show ?thesis using a b c by blast
qed

lemma second_build_overwrites:
  assumes first: "NewGetObjectIfMatchReq cl config bucket1 object1 etag1 m = Some (Inr p1, m1)"
      and second: "NewGetObjectIfMatchReq cl config bucket2 object2 etag2 m1 = Some (Inr p2, m2)"
  shows "GetObjectIfMatchReq m1 = p1 \<and> p2 \<noteq> p1
       \<and> ifMatchSeen m1 p1 = Some [etag1]
       \<and> ifMatchSeen m2 p1 = Some [etag2]
       \<and> ifMatchSeen m2 p2 = Some [etag2]
       \<and> (\<exists>u. makeTargetURL cl (Endpoint config) bucket2 object2 (Region config) = Inr u
              \<and> urlSeen m2 p1 = Some u \<and> urlSeen m2 p2 = Some u)"
proof -
  from NewGetObjectIfMatchReq_result[OF first] obtain rq hdr where
    f: "requestAt m1 p1 = Some (rq, hdr)" "hdr ''If-Match'' = Some [etag1]"
       "GetObjectIfMatchReq m1 = p1" "p1 = length (requests m)"
       "length (requests m1) = Suc (length (requests m))"
    by blast
  from NewGetObjectIfMatchReq_result[OF second] obtain rq2 hdr2 u where
    s: "makeTargetURL cl (Endpoint config) bucket2 object2 (Region config) = Inr u"
       "requestAt m2 p2 = Some (rq2, hdr2)" "hdr2 ''If-Match'' = Some [etag2]" "URL rq2 = Some u"
       "p2 = length (requests m1)"
    by blast
  have ne: "p2 \<noteq> p1" using f s by simp
  have old: "ifMatchSeen m2 p1 = Some [etag2] \<and> urlSeen m2 p1 = Some u"
    using second f(1,3) s(1)
    by (auto simp: NewGetObjectIfMatchReq_def SignV4_def requestAt_def deref_Some Let_def
        nth_append ifMatchSeen_def urlSeen_def split: sum.splits option.splits if_splits)
  show ?thesis using f s ne old by (simp add: ifMatchSeen_def urlSeen_def)
qed

lemma firstPut_eq: "firstPut = (Inr (putRef ''one'' 1 [1]), snd firstPut)"
  by (simp add: firstPut_def newPutObjectReq_mem_def newHeaderMap_def initialMemory_def
      exampleCollab_def putRef_def Let_def)

lemma secondPut_eq: "secondPut = (Inr (putRef ''two'' 2 [2, 2]), snd secondPut)"
  by (simp add: secondPut_def firstPut_def newPutObjectReq_mem_def newHeaderMap_def
      headerSetAt_def initialMemory_def exampleCollab_def putRef_def Let_def)

text \<open>
  C9, the claim as stated fails: the sequential test builds its request and then its bad
  request with NewGetObjectIfMatchReq; behind the pointer the first build returned, the
  If-Match header reads etag0 after the first build and 1234567890 after the second.
\<close>

theorem C9_counterexample:
  "buildTwice exampleCollab exampleConfig ''bucket'' ''object'' ''etag0'' ''object''
     ''1234567890'' (initialMemory exampleCollab) =
     Some (1, Some [''etag0''], 2, Some [''1234567890''], Some [''1234567890''])"
  by code_simp

text \<open>
  C9, as amended: every call of one of the six constructors that return a Request by
  value (newPutObjectReq, newUploadPartReq, newGetObjectRangeReq, newRemoveObjectReq,
  newGetObjectIfNoneMatchReq, newGetObjectIfModifiedSinceReq) builds a request of its
  own: its header map lies at an address that no map of the memory before the call
  has, the call changes no map, request or variable that existed before it, and the
  request it builds is the one made of that call's arguments. Hence a request built by
  one such call is left as it is by any later one, and no two of them share a header
  map. NewGetObjectIfMatchReq instead fills in and returns the request the package
  variable GetObjectIfMatchReq points to, so the request returned by one call has its
  If-Match header and its URL overwritten by the next call.
\<close>

theorem C9_fresh_by_value_shared_by_pointer:
  "builtFresh m (newPutObjectReq_mem cl config bucket object objectData m)
   \<and> sameRequest (newPutObjectReq cl config bucket object objectData)
        (newPutObjectReq_mem cl config bucket object objectData m)
   \<and> builtFresh m (newUploadPartReq_mem cl config bucket object uploadID partNumber partData m)
   \<and> sameRequest (newUploadPartReq cl config bucket object uploadID partNumber partData)
        (newUploadPartReq_mem cl config bucket object uploadID partNumber partData m)
   \<and> builtFresh m (newGetObjectRangeReq_mem cl config bucket object startRange endRange m)
   \<and> sameRequest (newGetObjectRangeReq cl config bucket object startRange endRange)
        (newGetObjectRangeReq_mem cl config bucket object startRange endRange m)
   \<and> builtFresh m (newRemoveObjectReq_mem cl config bucket object m)
   \<and> sameRequest (newRemoveObjectReq cl config bucket object)
        (newRemoveObjectReq_mem cl config bucket object m)
   \<and> builtFresh m (newGetObjectIfNoneMatchReq_mem cl config bucket object etag m)
   \<and> sameRequest (newGetObjectIfNoneMatchReq cl config bucket object etag)
        (newGetObjectIfNoneMatchReq_mem cl config bucket object etag m)
   \<and> builtFresh m (newGetObjectIfModifiedSinceReq_mem cl config bucket object lastModified m)
   \<and> sameRequest (newGetObjectIfModifiedSinceReq cl config bucket object lastModified)
        (newGetObjectIfModifiedSinceReq_mem cl config bucket object lastModified m)
   \<and> (builtFresh m (Inr r1, m1) \<and> builtFresh m1 (res2, m2) \<longrightarrow>
        requestValue m2 r1 = requestValue m1 r1
        \<and> requestValue m1 r1 \<noteq> None
        \<and> (\<forall>r2. res2 = Inr r2 \<longrightarrow> refCustomHeader r2 \<noteq> refCustomHeader r1))
   \<and> (NewGetObjectIfMatchReq cl config bucket1 object1 etag1 mp = Some (Inr p1, mp1)
        \<and> NewGetObjectIfMatchReq cl config bucket2 object2 etag2 mp1 = Some (Inr p2, mp2) \<longrightarrow>
        GetObjectIfMatchReq mp1 = p1 \<and> p2 \<noteq> p1
        \<and> ifMatchSeen mp1 p1 = Some [etag1]
        \<and> ifMatchSeen mp2 p1 = Some [etag2]
        \<and> ifMatchSeen mp2 p2 = Some [etag2]
        \<and> (\<exists>u. makeTargetURL cl (Endpoint config) bucket2 object2 (Region config) = Inr u
               \<and> urlSeen mp2 p1 = Some u \<and> urlSeen mp2 p2 = Some u))"
  using newPutObjectReq_mem_fresh[of m cl config bucket object objectData]
    newUploadPartReq_mem_fresh[of m cl config bucket object uploadID partNumber partData]
    newGetObjectRangeReq_mem_fresh[of m cl config bucket object startRange endRange]
    newRemoveObjectReq_mem_fresh[of m cl config bucket object]
    newGetObjectIfNoneMatchReq_mem_fresh[of m cl config bucket object etag]
    newGetObjectIfModifiedSinceReq_mem_fresh[of m cl config bucket object lastModified]
    fresh_builds_share_nothing[of m r1 m1 res2 m2]
    second_build_overwrites[of cl config bucket1 object1 etag1 mp p1 mp1 bucket2 object2 etag2 p2 mp2]
  by blast

text \<open>
  C9, the amended statement at two PUT requests built one after the other and at two
  builds of the If-Match request, all from the initial memory.
\<close>

theorem C9_fresh_by_value_shared_by_pointer_witness:
  "firstPut = (Inr (putRef ''one'' 1 [1]), snd firstPut)
   \<and> secondPut = (Inr (putRef ''two'' 2 [2, 2]), snd secondPut)
   \<and> requestValue (snd secondPut) (putRef ''one'' 1 [1]) =
       requestValue (snd firstPut) (putRef ''one'' 1 [1])
   \<and> requestValue (snd firstPut) (putRef ''one'' 1 [1]) \<noteq> None
   \<and> NewGetObjectIfMatchReq exampleCollab exampleConfig ''bucket'' ''object'' ''etag0''
       (initialMemory exampleCollab) = Some (Inr 1, memoryAfterFirst)
   \<and> NewGetObjectIfMatchReq exampleCollab exampleConfig ''bucket'' ''other'' ''1234567890''
       memoryAfterFirst = Some (Inr 2, memoryAfterSecond)
   \<and> ifMatchSeen memoryAfterFirst 1 = Some [''etag0'']
   \<and> ifMatchSeen memoryAfterSecond 1 = Some [''1234567890'']
   \<and> urlSeen memoryAfterSecond 1 = Some ''https://play/bucket/other''"
proof -
  have first: "NewGetObjectIfMatchReq exampleCollab exampleConfig ''bucket'' ''object'' ''etag0''
     (initialMemory exampleCollab) = Some (Inr 1, memoryAfterFirst)"
    by (simp add: NewGetObjectIfMatchReq_def SignV4_def deref_def initialMemory_def
        exampleCollab_def exampleConfig_def memoryAfterFirst_def Let_def)
  have second: "NewGetObjectIfMatchReq exampleCollab exampleConfig ''bucket'' ''other'' ''1234567890''
     memoryAfterFirst = Some (Inr 2, memoryAfterSecond)"
    by (simp add: NewGetObjectIfMatchReq_def SignV4_def deref_def
        exampleCollab_def exampleConfig_def memoryAfterFirst_def memoryAfterSecond_def Let_def)
  have url: "makeTargetURL exampleCollab (Endpoint exampleConfig) ''bucket'' ''other''
               (Region exampleConfig) = Inr ''https://play/bucket/other''"
    by (simp add: exampleCollab_def exampleConfig_def)
  note one = C9_fresh_by_value_shared_by_pointer[where cl = exampleCollab
      and config = exampleConfig and m = "initialMemory exampleCollab"
      and bucket = "''bucket''" and object = "''one''" and objectData = "[1]"
      and ?r1.0 = "putRef ''one'' 1 [1]" and ?m1.0 = "snd firstPut"
      and ?res2.0 = "Inr (putRef ''two'' 2 [2, 2])" and ?m2.0 = "snd secondPut"
      and ?bucket1.0 = "''bucket''" and ?object1.0 = "''object''" and ?etag1.0 = "''etag0''"
      and mp = "initialMemory exampleCollab" and ?p1.0 = 1 and ?mp1.0 = memoryAfterFirst
      and ?bucket2.0 = "''bucket''" and ?object2.0 = "''other''" and ?etag2.0 = "''1234567890''"
      and ?p2.0 = 2 and ?mp2.0 = memoryAfterSecond]
  note two = C9_fresh_by_value_shared_by_pointer[where cl = exampleCollab
      and config = exampleConfig and m = "snd firstPut"
      and bucket = "''bucket''" and object = "''two''" and objectData = "[2, 2]"]
  have f1: "builtFresh (initialMemory exampleCollab) (Inr (putRef ''one'' 1 [1]), snd firstPut)"
    using one[THEN conjunct1] firstPut_eq by (simp add: firstPut_def)
  have f2: "builtFresh (snd firstPut) (Inr (putRef ''two'' 2 [2, 2]), snd secondPut)"
    using two[THEN conjunct1] secondPut_eq by (simp add: secondPut_def)
  from one f1 f2 first second url
  have "requestValue (snd secondPut) (putRef ''one'' 1 [1]) =
       requestValue (snd firstPut) (putRef ''one'' 1 [1])
   \<and> requestValue (snd firstPut) (putRef ''one'' 1 [1]) \<noteq> None
   \<and> ifMatchSeen memoryAfterFirst 1 = Some [''etag0'']
   \<and> ifMatchSeen memoryAfterSecond 1 = Some [''1234567890'']
   \<and> urlSeen memoryAfterSecond 1 = Some ''https://play/bucket/other''"
    by auto
  then show ?thesis using first second firstPut_eq secondPut_eq by blast
qed

subsection \<open>The range probe\<close>






end
